theory Spec2Isabelle
  imports Main
begin

section \<open>Strings, numbers and errors\<close>

text \<open>
  Go strings are byte sequences; \<open>len\<close>, indexing and slicing count bytes. They are
  modelled as \<^typ>\<open>string\<close> (a list of 8-bit characters). Go's \<open>int\<close> is modelled as
  \<^typ>\<open>int\<close>; no arithmetic of the modelled code can overflow on line numbers or lengths.
\<close>

text \<open>\<open>fmt.Sprintf("%d", n)\<close>: decimal rendering.\<close>

definition digit_char :: "nat \<Rightarrow> char" where
  "digit_char d = char_of (48 + d)"

function show_nat :: "nat \<Rightarrow> string" where
  "show_nat n = (if n < 10 then [digit_char n] else show_nat (n div 10) @ [digit_char (n mod 10)])"
  by pat_completeness auto
termination
  by (relation "measure id") auto

declare show_nat.simps [simp del]

definition show_int :: "int \<Rightarrow> string" where
  "show_int i = (if i < 0 then CHR ''-'' # show_nat (nat (- i)) else show_nat (nat i))"

text \<open>\<open>strings.Join(parts, sep)\<close>.\<close>

fun join :: "string \<Rightarrow> string list \<Rightarrow> string" where
  "join sep [] = []"
| "join sep [x] = x"
| "join sep (x # y # ys) = x @ sep @ join sep (y # ys)"

text \<open>
  Every \<open>fmt.Errorf\<close> of the modelled code is a constructor; a wrapped error (\<open>%w\<close>) is
  an argument. \<open>error_text\<close> renders the message as \<open>err.Error()\<close> does.
\<close>

datatype error =
    InvalidLineNumber int
  | EmptySymbolName
  | FileDoesNotExist string
  | AbsPathFailed string string
  | OsError string
  | ReadFileFailed error
  | LineExceedsFile int nat
  | PositionNotFound string int
  | FindSymbolFailed string int string error
  | GoplsNoArguments
  | GoplsFailed string
  | GoplsFailedWithOutput string string
  | EmptyFilePath
  | LineNotPositive int
  | EmptyNewName
  | RenameFailed string string error
  | CacheReadFailed string error
  | CacheParseFailed string string
  | CacheNoAST string
  | CacheStatFailed string error
  | WorkspaceDirRequired
  | WorkspaceDirNotAbsolute string
  | ResolveWorkspaceFailed error
  | AbsoluteFileMissing string
  | FileNotFound string string
  | ResolveFilePathFailed error
  | SymbolNotInFile string
  | NoSymbolAtLine int
  | ResolveRelativePackageFailed error
  | ResolvePackagePathFailed error
  | LoadPackageFailed string error
  | NoPackagesFound string
  | PackageHasErrors "string list"
  | SymbolNotInPackage string
  | RuntimePanic string
  | ScannerTokenTooLong

fun error_text :: "error \<Rightarrow> string" where
  "error_text (InvalidLineNumber n) =
     ''invalid line number: '' @ show_int n @ '' (must be greater than 0)''"
| "error_text EmptySymbolName = ''symbol name cannot be empty''"
| "error_text (FileDoesNotExist p) = ''file does not exist: '' @ p"
| "error_text (AbsPathFailed p m) = ''failed to get absolute path for '' @ p @ '': '' @ m"
| "error_text (OsError m) = m"
| "error_text (ReadFileFailed e) = ''failed to read file: '' @ error_text e"
| "error_text (LineExceedsFile n k) =
     ''line number '' @ show_int n @ '' exceeds file length ('' @ show_nat k @ '' lines)''"
| "error_text (PositionNotFound s n) =
     ''symbol '' @ [CHR 0x27] @ s @ [CHR 0x27] @ '' not found at a word boundary at line ''
       @ show_int n"
| "error_text (FindSymbolFailed s n p e) =
     ''failed to find symbol '' @ [CHR 0x27] @ s @ [CHR 0x27] @ '' at line '' @ show_int n
       @ '' in '' @ p @ '': '' @ error_text e"
| "error_text GoplsNoArguments = ''no arguments provided to gopls command''"
| "error_text (GoplsFailed m) = ''gopls command failed: '' @ m"
| "error_text (GoplsFailedWithOutput m out) =
     ''gopls command failed: '' @ m @ '' ('' @ out @ '')''"
| "error_text EmptyFilePath = ''file path cannot be empty''"
| "error_text (LineNotPositive n) = ''line number must be positive, got '' @ show_int n"
| "error_text EmptyNewName = ''new name cannot be empty''"
| "error_text (RenameFailed s pos e) =
     ''failed to rename symbol '' @ [CHR 0x27] @ s @ [CHR 0x27] @ '' at '' @ pos @ '': ''
       @ error_text e"
| "error_text (CacheReadFailed p e) = ''failed to read file '' @ p @ '': '' @ error_text e"
| "error_text (CacheParseFailed p m) = ''failed to parse file '' @ p @ '': '' @ m"
| "error_text (CacheNoAST p) = ''failed to parse file '' @ p @ '': no AST generated''"
| "error_text (CacheStatFailed p e) = ''failed to stat file '' @ p @ '': '' @ error_text e"
| "error_text WorkspaceDirRequired = ''workspace_dir is required for file analysis''"
| "error_text (WorkspaceDirNotAbsolute d) = ''workspace_dir must be an absolute path, got: '' @ d"
| "error_text (ResolveWorkspaceFailed e) =
     ''failed to resolve workspace directory: '' @ error_text e"
| "error_text (AbsoluteFileMissing p) = ''absolute file path does not exist: '' @ p"
| "error_text (FileNotFound p d) =
     ''file not found: '' @ p @ '' (searched relative to '' @ d @ '')''"
| "error_text (ResolveFilePathFailed e) = ''failed to resolve file path: '' @ error_text e"
| "error_text (SymbolNotInFile s) =
     ''symbol '' @ [CHR 0x27] @ s @ [CHR 0x27] @ '' not found in file''"
| "error_text (NoSymbolAtLine n) = ''no symbol found at line '' @ show_int n"
| "error_text (ResolveRelativePackageFailed e) =
     ''failed to resolve relative package path: '' @ error_text e"
| "error_text (ResolvePackagePathFailed e) = ''failed to resolve package path: '' @ error_text e"
| "error_text (LoadPackageFailed p e) = ''failed to load package '' @ p @ '': '' @ error_text e"
| "error_text (NoPackagesFound p) = ''no packages found for path: '' @ p"
| "error_text (PackageHasErrors es) = ''package has errors: ['' @ join '' '' es @ '']''"
| "error_text (SymbolNotInPackage s) =
     ''symbol '' @ [CHR 0x27] @ s @ [CHR 0x27] @ '' not found in package''"
| "error_text (RuntimePanic m) = ''panic: '' @ m"
| "error_text ScannerTokenTooLong = ''bufio.Scanner: token too long''"

text \<open>
  \<open>strings.Split(s, sep)\<close> for a one-byte separator: the pieces between separators, at
  least one piece. \<open>split_lines\<close> is \<open>strings.Split(s, "\n")\<close>.
\<close>

fun split_on :: "char \<Rightarrow> string \<Rightarrow> string list" where
  "split_on sep [] = [[]]"
| "split_on sep (c # cs) =
     (if c = sep then [] # split_on sep cs
      else (case split_on sep cs of l # ls \<Rightarrow> (c # l) # ls | [] \<Rightarrow> [[c]]))"

definition split_lines :: "string \<Rightarrow> string list" where
  "split_lines s = split_on (CHR 0x0A) s"

text \<open>\<open>strings.HasPrefix\<close> and \<open>strings.HasSuffix\<close>.\<close>

definition HasPrefix :: "string \<Rightarrow> string \<Rightarrow> bool" where
  "HasPrefix s p \<longleftrightarrow> take (length p) s = p"

definition HasSuffix :: "string \<Rightarrow> string \<Rightarrow> bool" where
  "HasSuffix s p \<longleftrightarrow> length p \<le> length s \<and> drop (length s - length p) s = p"

text \<open>
  The UTF-8 encodings of the characters of \<open>unicode.IsSpace\<close>: tab, line feed, vertical
  tab, form feed, carriage return, space, U+0085, U+00A0, U+1680, U+2000 to U+200A,
  U+2028, U+2029, U+202F, U+205F and U+3000.
\<close>

definition space_runes :: "string list" where
  "space_runes =
     [[CHR 0x09], [CHR 0x0A], [CHR 0x0B], [CHR 0x0C], [CHR 0x0D], [CHR 0x20],
      [CHR 0xC2, CHR 0x85], [CHR 0xC2, CHR 0xA0],
      [CHR 0xE1, CHR 0x9A, CHR 0x80],
      [CHR 0xE2, CHR 0x80, CHR 0x80], [CHR 0xE2, CHR 0x80, CHR 0x81],
      [CHR 0xE2, CHR 0x80, CHR 0x82], [CHR 0xE2, CHR 0x80, CHR 0x83],
      [CHR 0xE2, CHR 0x80, CHR 0x84], [CHR 0xE2, CHR 0x80, CHR 0x85],
      [CHR 0xE2, CHR 0x80, CHR 0x86], [CHR 0xE2, CHR 0x80, CHR 0x87],
      [CHR 0xE2, CHR 0x80, CHR 0x88], [CHR 0xE2, CHR 0x80, CHR 0x89],
      [CHR 0xE2, CHR 0x80, CHR 0x8A],
      [CHR 0xE2, CHR 0x80, CHR 0xA8], [CHR 0xE2, CHR 0x80, CHR 0xA9],
      [CHR 0xE2, CHR 0x80, CHR 0xAF],
      [CHR 0xE2, CHR 0x81, CHR 0x9F],
      [CHR 0xE3, CHR 0x80, CHR 0x80]]"

lemma space_rune_found:
  assumes "find P space_runes = Some e"
  shows "e \<noteq> [] \<and> P e"
proof -
  from assms have "e \<in> set space_runes" and "P e"
    by (auto simp add: find_Some_iff)
  moreover have "[] \<notin> set space_runes"
    by (simp add: space_runes_def)
  ultimately show ?thesis
    by auto
qed

text \<open>
  \<open>strings.TrimSpace\<close>: the string without the white space characters at its start
  (\<open>TrimLeftSpace\<close>) and at its end (\<open>TrimRightSpace\<close>). A character is read from the
  bytes as \<open>utf8.DecodeRuneInString\<close> and \<open>utf8.DecodeLastRuneInString\<close> read it: it
  is a white space character exactly when the bytes at that end are its encoding; a
  byte that is no part of a valid encoding is no white space and stops the trimming.
\<close>

function TrimLeftSpace :: "string \<Rightarrow> string" where
  "TrimLeftSpace s =
     (case find (HasPrefix s) space_runes of
        Some e \<Rightarrow> TrimLeftSpace (drop (length e) s)
      | None \<Rightarrow> s)"
  by pat_completeness auto
termination
proof (relation "measure length")
  fix s e
  assume "find (HasPrefix s) space_runes = Some e"
  then have "e \<noteq> []" and "HasPrefix s e"
    using space_rune_found [of "HasPrefix s" e] by simp_all
  then have "s \<noteq> []"
    by (auto simp add: HasPrefix_def)
  with \<open>e \<noteq> []\<close> show "(drop (length e) s, s) \<in> measure length"
    by simp
qed simp

function TrimRightSpace :: "string \<Rightarrow> string" where
  "TrimRightSpace s =
     (case find (HasSuffix s) space_runes of
        Some e \<Rightarrow> TrimRightSpace (take (length s - length e) s)
      | None \<Rightarrow> s)"
  by pat_completeness auto
termination
proof (relation "measure length")
  fix s e
  assume "find (HasSuffix s) space_runes = Some e"
  then have "e \<noteq> []" and "HasSuffix s e"
    using space_rune_found [of "HasSuffix s" e] by simp_all
  then have "s \<noteq> []"
    by (auto simp add: HasSuffix_def)
  with \<open>e \<noteq> []\<close> show "(take (length s - length e) s, s) \<in> measure length"
    by simp
qed simp

declare TrimLeftSpace.simps [simp del] TrimRightSpace.simps [simp del]

definition TrimSpace :: "string \<Rightarrow> string" where
  "TrimSpace s = TrimRightSpace (TrimLeftSpace s)"

text \<open>
  \<open>utf8.DecodeRuneInString\<close>, the character only: the code point that the first bytes
  encode, or \<open>utf8.RuneError\<close> (U+FFFD) for an empty string and for bytes that are no
  valid encoding.
\<close>

definition DecodeRuneInString :: "string \<Rightarrow> int" where
  "DecodeRuneInString s =
     (let bs = map of_char s :: int list;
          RuneError = 0xFFFD
      in case bs of
           [] \<Rightarrow> RuneError
         | s0 # rest \<Rightarrow>
             if s0 < 0x80 then s0
             else if s0 < 0xC2 \<or> 0xF4 < s0 then RuneError
             else
               (let sz = (if s0 < 0xE0 then 2 else if s0 < 0xF0 then 3 else 4 :: int);
                    lo = (if s0 = 0xE0 then 0xA0 else if s0 = 0xF0 then 0x90 else 0x80);
                    hi = (if s0 = 0xED then 0x9F else if s0 = 0xF4 then 0x8F else 0xBF)
                in if int (length bs) < sz then RuneError
                   else
                     (let s1 = bs ! 1 in
                        if s1 < lo \<or> hi < s1 then RuneError
                        else if sz \<le> 2 then (s0 mod 32) * 64 + s1 mod 64
                        else
                          (let s2 = bs ! 2 in
                             if s2 < 0x80 \<or> 0xBF < s2 then RuneError
                             else if sz \<le> 3 then
                               (s0 mod 16) * 4096 + (s1 mod 64) * 64 + s2 mod 64
                             else
                               (let s3 = bs ! 3 in
                                  if s3 < 0x80 \<or> 0xBF < s3 then RuneError
                                  else (s0 mod 8) * 262144 + (s1 mod 64) * 4096
                                         + (s2 mod 64) * 64 + s3 mod 64)))))"

section \<open>Position resolver (gopls\_utils.go, createGoplsPosition)\<close>

text \<open>\<open>isIdentifierChar\<close>, applied to \<open>rune(b)\<close> of a byte \<open>b\<close>.\<close>

definition isIdentifierChar :: "char \<Rightarrow> bool" where
  "isIdentifierChar r =
     (let n = (of_char r :: nat) in
        (of_char CHR ''a'' \<le> n \<and> n \<le> of_char CHR ''z'') \<or>
        (of_char CHR ''A'' \<le> n \<and> n \<le> of_char CHR ''Z'') \<or>
        (of_char CHR ''0'' \<le> n \<and> n \<le> of_char CHR ''9'') \<or>
        r = CHR ''_'')"

text \<open>\<open>isWordBoundary(line, index, symbol)\<close>; both reads are in range by their guards.\<close>

definition isWordBoundary :: "string \<Rightarrow> nat \<Rightarrow> string \<Rightarrow> bool" where
  "isWordBoundary line index symbol =
     (if index > 0 \<and> isIdentifierChar (line ! (index - 1)) then False
      else
        (let endIndex = index + length symbol in
           if endIndex < length line \<and> isIdentifierChar (line ! endIndex) then False
           else True))"

text \<open>
  The search loop \<open>for i := 0; i <= len(targetLine)-len(symbolName); i++\<close>, from index
  \<open>i\<close> on; the bound is a signed difference. \<open>None\<close> is \<open>symbolIndex == -1\<close>.
\<close>

function scanFrom :: "string \<Rightarrow> string \<Rightarrow> nat \<Rightarrow> nat option" where
  "scanFrom targetLine symbolName i =
     (if int i \<le> int (length targetLine) - int (length symbolName) then
        (if take (length symbolName) (drop i targetLine) = symbolName
            \<and> isWordBoundary targetLine i symbolName
         then Some i
         else scanFrom targetLine symbolName (Suc i))
      else None)"
  by pat_completeness auto
termination
  by (relation "measure (\<lambda>(targetLine, symbolName, i). Suc (length targetLine) - i)") auto

declare scanFrom.simps [simp del]

text \<open>
  \<open>findSymbolColumnPosition\<close>, given the result of \<open>os.ReadFile\<close> on the file.
\<close>

definition findSymbolColumnPosition ::
  "(error + string) \<Rightarrow> int \<Rightarrow> string \<Rightarrow> error + int" where
  "findSymbolColumnPosition content lineNumber symbolName =
     (case content of
        Inl err \<Rightarrow> Inl (ReadFileFailed err)
      | Inr text \<Rightarrow>
          (let lines = split_lines text in
             if lineNumber > int (length lines) then
               Inl (LineExceedsFile lineNumber (length lines))
             else
               (let targetLine = lines ! nat (lineNumber - 1) in
                  case scanFrom targetLine symbolName 0 of
                    None \<Rightarrow> Inl (PositionNotFound symbolName lineNumber)
                  | Some symbolIndex \<Rightarrow> Inr (int symbolIndex + 1))))"

section \<open>Syntax trees (the part of go/ast that the code reads)\<close>

text \<open>
  A position is kept as its line number, \<open>fset.Position(pos).Line\<close>, and a declaration
  also keeps the file name of its position. The code compares nodes as pointers, so a
  node carries its address, \<open>ptr\<close>.
\<close>

datatype expr = Ident string | StarExpr expr | OtherExpr

text \<open>
  Statements and the expressions below them, as \<open>ast.Inspect\<close> walks them. The fields of
  a constructor are: address, line of \<open>Pos()\<close>, line of \<open>End()\<close>, then the children in
  the order of \<open>ast.Walk\<close>. For a statement with a \<open>Body\<close> the children that come before
  the body (\<open>Init\<close>, \<open>Cond\<close>, \<open>Post\<close>, \<open>Key\<close>, \<open>Value\<close>, \<open>X\<close>, \<open>Tag\<close>,
  \<open>Assign\<close>, \<open>Type\<close>; those that are not nil) are one list, then the \<open>Body\<close>, then for
  an \<open>if\<close> the \<open>Else\<close>. A clause has its \<open>List\<close> or \<open>Comm\<close>, then its \<open>Body\<close>
  statements. \<open>OtherNode\<close> is any other statement or expression.
\<close>

datatype node =
    IfStmt nat int int "node list" node "node option"
  | ForStmt nat int int "node list" node
  | RangeStmt nat int int "node list" node
  | SwitchStmt nat int int "node list" node
  | TypeSwitchStmt nat int int "node list" node
  | SelectStmt nat int int node
  | BlockStmt nat int int "node list"
  | CaseClause nat int int "node list" "node list"
  | CommClause nat int int "node list" "node list"
  | FuncLit nat int int "node list" node
  | OtherNode nat int int "node list"

fun ptr :: "node \<Rightarrow> nat" where
  "ptr (IfStmt p s e pre body els) = p"
| "ptr (ForStmt p s e pre body) = p"
| "ptr (RangeStmt p s e pre body) = p"
| "ptr (SwitchStmt p s e pre body) = p"
| "ptr (TypeSwitchStmt p s e pre body) = p"
| "ptr (SelectStmt p s e body) = p"
| "ptr (BlockStmt p s e list) = p"
| "ptr (CaseClause p s e list body) = p"
| "ptr (CommClause p s e comm body) = p"
| "ptr (FuncLit p s e pre body) = p"
| "ptr (OtherNode p s e cs) = p"

fun pos_line :: "node \<Rightarrow> int" where
  "pos_line (IfStmt p s e pre body els) = s"
| "pos_line (ForStmt p s e pre body) = s"
| "pos_line (RangeStmt p s e pre body) = s"
| "pos_line (SwitchStmt p s e pre body) = s"
| "pos_line (TypeSwitchStmt p s e pre body) = s"
| "pos_line (SelectStmt p s e body) = s"
| "pos_line (BlockStmt p s e list) = s"
| "pos_line (CaseClause p s e list body) = s"
| "pos_line (CommClause p s e comm body) = s"
| "pos_line (FuncLit p s e pre body) = s"
| "pos_line (OtherNode p s e cs) = s"

fun end_line :: "node \<Rightarrow> int" where
  "end_line (IfStmt p s e pre body els) = e"
| "end_line (ForStmt p s e pre body) = e"
| "end_line (RangeStmt p s e pre body) = e"
| "end_line (SwitchStmt p s e pre body) = e"
| "end_line (TypeSwitchStmt p s e pre body) = e"
| "end_line (SelectStmt p s e body) = e"
| "end_line (BlockStmt p s e list) = e"
| "end_line (CaseClause p s e list body) = e"
| "end_line (CommClause p s e comm body) = e"
| "end_line (FuncLit p s e pre body) = e"
| "end_line (OtherNode p s e cs) = e"

text \<open>The children of a node, in the order in which \<open>ast.Walk\<close> visits them.\<close>

fun children :: "node \<Rightarrow> node list" where
  "children (IfStmt p s e pre body els) =
     pre @ [body] @ (case els of None \<Rightarrow> [] | Some x \<Rightarrow> [x])"
| "children (ForStmt p s e pre body) = pre @ [body]"
| "children (RangeStmt p s e pre body) = pre @ [body]"
| "children (SwitchStmt p s e pre body) = pre @ [body]"
| "children (TypeSwitchStmt p s e pre body) = pre @ [body]"
| "children (SelectStmt p s e body) = [body]"
| "children (BlockStmt p s e list) = list"
| "children (CaseClause p s e list body) = list @ body"
| "children (CommClause p s e comm body) = comm @ body"
| "children (FuncLit p s e pre body) = pre @ [body]"
| "children (OtherNode p s e cs) = cs"

text \<open>Declarations. A \<open>doc\<close> field is \<open>Doc.Text()\<close> when \<open>Doc\<close> is not nil.\<close>

record funcBody =
  body_preLine :: int
  body_endLine :: int
  body_stmt :: node

text \<open>
  \<open>body_preLine\<close> is \<open>fset.Position(fn.Body.Pos() - 1).Line\<close>, \<open>body_endLine\<close> is
  \<open>fset.Position(fn.Body.End()).Line\<close>, \<open>body_stmt\<close> is \<open>fn.Body\<close>. In \<open>funcDecl\<close>,
  \<open>fn_recv\<close> is the list of the types of \<open>fn.Recv.List\<close> when \<open>fn.Recv\<close> is not nil.
\<close>

record funcDecl =
  fn_name :: string
  fn_doc :: "string option"
  fn_recv :: "expr list option"
  fn_filename :: string
  fn_line :: int
  fn_endLine :: int
  fn_body :: "funcBody option"

text \<open>\<open>InterfaceType m\<close>: an \<open>*ast.InterfaceType\<close>, \<open>m\<close> says that its \<open>Methods\<close> is not nil.\<close>

datatype type_expr = InterfaceType bool | OtherType

record typeSpec =
  ts_ptr :: nat
  ts_name :: string
  ts_doc :: "string option"
  ts_type :: type_expr
  ts_filename :: string
  ts_line :: int
  ts_endLine :: int

record valueSpec =
  vs_ptr :: nat
  vs_names :: "string list"
  vs_doc :: "string option"
  vs_filename :: string
  vs_line :: int
  vs_endLine :: int

record importSpec =
  is_filename :: string
  is_line :: int
  is_endLine :: int

datatype spec = ImportSpec importSpec | TypeSpec typeSpec | ValueSpec valueSpec

datatype tok = IMPORT_tok | TYPE_tok | VAR_tok | CONST_tok

record genDecl =
  gd_tok :: tok
  gd_doc :: "string option"
  gd_specs :: "spec list"

datatype decl = FuncDecl funcDecl | GenDecl genDecl | BadDecl

text \<open>
  \<open>file_pos\<close> is the file name of \<open>fset.Position(file.Pos())\<close> when \<open>file.Pos()\<close> is
  valid; \<open>file_pkg\<close> is \<open>file.Name.Name\<close>.
\<close>

record ast_file =
  file_pkg :: string
  file_pos :: "string option"
  file_doc :: "string option"
  file_decls :: "decl list"

section \<open>The environment: file system, library and external tool\<close>

text \<open>
  What the code obtains from outside the repository is a field of \<open>world\<close>: the operating
  system (\<open>os.Stat\<close>, \<open>os.ReadFile\<close>), path functions of the standard library, and the
  \<open>gopls\<close> subprocess. A modification time is an integer instant; \<open>t.After(u)\<close> is
  \<open>t > u\<close>.
\<close>

datatype stat_result = StatOk int | StatNotExist string | StatFailed string

text \<open>
  The error of \<open>parser.ParseFile\<close>: none, a \<open>scanner.ErrorList\<close> (syntax errors, with
  which a partial tree may come), or any other error.
\<close>

datatype parse_error = NoParseError | SyntaxErrors string | OtherParseError string

text \<open>The fields of \<open>packages.Package\<close> that the code reads.\<close>

record package =
  pkg_Module :: "(string \<times> string) option"
  pkg_PkgPath :: string
  pkg_GoFiles :: "string list"
  pkg_Syntax :: "ast_file list"
  pkg_Errors :: "string list"

record world =
  os_Stat :: "string \<Rightarrow> stat_result"
  os_ReadFile :: "string \<Rightarrow> error + string"
  filepath_Abs :: "string \<Rightarrow> error + string"
  filepath_Rel :: "string \<Rightarrow> string \<Rightarrow> error + string"
  filepath_Join :: "string \<Rightarrow> string \<Rightarrow> string"
  filepath_Dir :: "string \<Rightarrow> string"
  run_gopls :: "string list \<Rightarrow> string \<times> string option"
  parser_ParseFile :: "string \<Rightarrow> string \<Rightarrow> ast_file option \<times> parse_error"
  packages_Load :: "string \<Rightarrow> string \<Rightarrow> error + package list"
  unicode_Upper :: "int \<Rightarrow> bool"

text \<open>
  \<open>run_gopls args\<close> is \<open>cmd.CombinedOutput()\<close> of \<open>gopls args\<close>: the output and, when
  the command failed, the message of its error. The working directory that
  \<open>executeGoplsCommand\<close> sets is computed from \<open>args\<close> alone.
  \<open>parser_ParseFile path src\<close> is \<open>parser.ParseFile(fset, path, src, parser.ParseComments)\<close>;
  \<open>pkg_Module\<close> is the module's \<open>Dir\<close> and \<open>Path\<close>;
  \<open>packages_Load dir pattern\<close> is \<open>packages.Load\<close> with \<open>Dir: dir\<close>;
  \<open>unicode_Upper r\<close> is the range table \<open>unicode.Upper\<close> of the standard library (the
  upper-case letters) at the code point \<open>r\<close>, which the code consults beyond Latin-1.
\<close>

datatype event = EvStat string | EvReadFile string | EvGopls "string list"

definition executeGoplsCommand :: "world \<Rightarrow> string list \<Rightarrow> error + string" where
  "executeGoplsCommand w args =
     (if args = [] then Inl GoplsNoArguments
      else
        (case run_gopls w args of
           (output, Some err) \<Rightarrow>
             (let outputStr = TrimSpace output in
                if outputStr = [] then Inl (GoplsFailed err)
                else Inl (GoplsFailedWithOutput err outputStr))
         | (output, None) \<Rightarrow> Inr (TrimSpace output)))"

text \<open>
  \<open>createGoplsPosition\<close>, with the list of the file-system calls it made.
\<close>

definition createGoplsPosition ::
  "world \<Rightarrow> string \<Rightarrow> int \<Rightarrow> string \<Rightarrow> (error + string) \<times> event list" where
  "createGoplsPosition w filePath lineNumber symbolName =
     (if lineNumber \<le> 0 then (Inl (InvalidLineNumber lineNumber), [])
      else if symbolName = [] then (Inl EmptySymbolName, [])
      else
        (case os_Stat w filePath of
           StatNotExist m \<Rightarrow> (Inl (FileDoesNotExist filePath), [EvStat filePath])
         | _ \<Rightarrow>
           (case filepath_Abs w filePath of
              Inl err \<Rightarrow> (Inl (AbsPathFailed filePath (error_text err)), [EvStat filePath])
            | Inr absPath \<Rightarrow>
                (case findSymbolColumnPosition (os_ReadFile w absPath) lineNumber symbolName of
                   Inl err \<Rightarrow>
                     (Inl (FindSymbolFailed symbolName lineNumber absPath err),
                      [EvStat filePath, EvReadFile absPath])
                 | Inr columnPos \<Rightarrow>
                     (Inr (absPath @ '':'' @ show_int lineNumber @ '':'' @ show_int columnPos),
                      [EvStat filePath, EvReadFile absPath])))))"

section \<open>Rename\<close>

text \<open>\<open>Rename\<close>, with the list of the file-system and \<open>gopls\<close> calls it made.\<close>

definition Rename ::
  "world \<Rightarrow> string \<Rightarrow> int \<Rightarrow> string \<Rightarrow> string \<Rightarrow> (error + string) \<times> event list" where
  "Rename w filePath lineNumber symbolName newName =
     (if filePath = [] then (Inl EmptyFilePath, [])
      else if lineNumber \<le> 0 then (Inl (LineNotPositive lineNumber), [])
      else if symbolName = [] then (Inl EmptySymbolName, [])
      else if newName = [] then (Inl EmptyNewName, [])
      else if symbolName = newName then
        (Inr (''Symbol '' @ [CHR 0x27] @ symbolName @ [CHR 0x27]
               @ '' already has the desired name''), [])
      else
        (case createGoplsPosition w filePath lineNumber symbolName of
           (Inl err, evs) \<Rightarrow> (Inl err, evs)
         | (Inr position, evs) \<Rightarrow>
             (let args = [''rename'', ''-w'', position, newName] in
                case executeGoplsCommand w args of
                  Inl err \<Rightarrow> (Inl (RenameFailed symbolName position err), evs @ [EvGopls args])
                | Inr output \<Rightarrow>
                    (Inr (if output = []
                          then ''Symbol '' @ [CHR 0x27] @ symbolName @ [CHR 0x27]
                                 @ '' renamed to '' @ [CHR 0x27] @ newName @ [CHR 0x27]
                          else output),
                     evs @ [EvGopls args]))))"

section \<open>Parse cache (fileCache)\<close>

text \<open>
  A \<open>*cachedFile\<close> is modelled by the record with its identity \<open>cf_ref\<close>: every
  \<open>&cachedFile{...}\<close> is a new object, numbered by the count of the objects made before
  it (\<open>allocated\<close>). The token file set of an entry is folded into the line numbers of the
  tree. The mutex is left out: the model is sequential.
\<close>

record cachedFile =
  cf_ref :: nat
  cf_ast :: ast_file
  cf_modTime :: int
  cf_filePath :: string

record fileCache =
  files :: "string \<rightharpoonup> cachedFile"
  allocated :: nat

definition emptyCache :: fileCache where
  "emptyCache = \<lparr>files = Map.empty, allocated = 0\<rparr>"

definition GetOrParseFile ::
  "world \<Rightarrow> fileCache \<Rightarrow> string \<Rightarrow> (error + cachedFile) \<times> fileCache" where
  "GetOrParseFile w cache filePath =
     (let valid =
        (case files cache filePath of
           None \<Rightarrow> None
         | Some cached \<Rightarrow>
             (case os_Stat w filePath of
                StatOk t \<Rightarrow> if \<not> (t > cf_modTime cached) then Some cached else None
              | StatNotExist m \<Rightarrow> None
              | StatFailed m \<Rightarrow> None))
      in
        case valid of
          Some cached \<Rightarrow> (Inr cached, cache)
        | None \<Rightarrow>
            (case os_ReadFile w filePath of
               Inl err \<Rightarrow> (Inl (CacheReadFailed filePath err), cache)
             | Inr src \<Rightarrow>
                 (case parser_ParseFile w filePath src of
                    (file, perr) \<Rightarrow>
                      (case perr of
                         OtherParseError m \<Rightarrow> (Inl (CacheParseFailed filePath m), cache)
                       | _ \<Rightarrow>
                         (case file of
                            None \<Rightarrow> (Inl (CacheNoAST filePath), cache)
                          | Some tree \<Rightarrow>
                              (case os_Stat w filePath of
                                 StatNotExist m \<Rightarrow>
                                   (Inl (CacheStatFailed filePath (OsError m)), cache)
                               | StatFailed m \<Rightarrow>
                                   (Inl (CacheStatFailed filePath (OsError m)), cache)
                               | StatOk t \<Rightarrow>
                                   (let cached = \<lparr>cf_ref = allocated cache, cf_ast = tree,
                                                   cf_modTime = t, cf_filePath = filePath\<rparr>
                                    in (Inr cached,
                                        cache\<lparr>files := (files cache)(filePath \<mapsto> cached),
                                              allocated := Suc (allocated cache)\<rparr>))))))))"

definition ClearCache :: "fileCache \<Rightarrow> fileCache" where
  "ClearCache cache = cache\<lparr>files := Map.empty\<rparr>"

definition RemoveFile :: "fileCache \<Rightarrow> string \<Rightarrow> fileCache" where
  "RemoveFile cache filePath = cache\<lparr>files := (files cache)(filePath := None)\<rparr>"

section \<open>Scope hierarchy (buildScopeHierarchyAtLine, findBlockScopesAtLine)\<close>

lemma size_member: "c \<in> set cs \<Longrightarrow> size (c::node) \<le> size_list size cs"
  by (induction cs) auto

lemma size_children: "c \<in> set (children n) \<Longrightarrow> size c < size n"
  by (cases n) (auto split: option.splits dest!: size_member)

text \<open>\<open>fmt.Sprintf("<label> (lines %d-%d)", start, end)\<close>.\<close>

definition lines_label :: "string \<Rightarrow> int \<Rightarrow> int \<Rightarrow> string" where
  "lines_label label start end =
     label @ '' (lines '' @ show_int start @ ''-'' @ show_int end @ '')''"

text \<open>
  The type switch in the visitor of \<open>isPartOfConstruct\<close>, at one visited node \<open>n\<close>: the
  node has \<open>block\<close> as its \<open>Body\<close> (or \<open>Else\<close>), or as a statement of a clause body.
  \<open>==\<close> compares pointers. The case \<open>*ast.FuncDecl\<close> has no counterpart: a declaration
  is not below a statement.
\<close>

fun has_as_body :: "node \<Rightarrow> node \<Rightarrow> bool" where
  "has_as_body block (IfStmt p s e pre body els) =
     (ptr body = ptr block \<or> (case els of None \<Rightarrow> False | Some x \<Rightarrow> ptr x = ptr block))"
| "has_as_body block (ForStmt p s e pre body) = (ptr body = ptr block)"
| "has_as_body block (RangeStmt p s e pre body) = (ptr body = ptr block)"
| "has_as_body block (SwitchStmt p s e pre body) = (ptr body = ptr block)"
| "has_as_body block (TypeSwitchStmt p s e pre body) = (ptr body = ptr block)"
| "has_as_body block (SelectStmt p s e body) = (ptr body = ptr block)"
| "has_as_body block (FuncLit p s e pre body) = (ptr body = ptr block)"
| "has_as_body block (CaseClause p s e list body) = (\<exists>stmt \<in> set body. ptr stmt = ptr block)"
| "has_as_body block (CommClause p s e comm body) = (\<exists>stmt \<in> set body. ptr stmt = ptr block)"
| "has_as_body block (BlockStmt p s e list) = False"
| "has_as_body block (OtherNode p s e cs) = False"

text \<open>
  \<open>ast.Inspect(parent, ...)\<close> of \<open>isPartOfConstruct\<close>: at a node that has the block as
  body the flag is set and the node's children are skipped, otherwise the children are
  visited. The result is the flag.
\<close>

function inspect_for_body :: "node \<Rightarrow> node \<Rightarrow> bool" where
  "inspect_for_body block n =
     (if has_as_body block n then True
      else (\<exists>c \<in> set (children n). inspect_for_body block c))"
  by pat_completeness auto
termination
  by (relation "measure (\<lambda>(block, n). size n)") (auto simp: size_children)

declare inspect_for_body.simps [simp del]

definition isPartOfConstruct :: "node \<Rightarrow> node \<Rightarrow> bool" where
  "isPartOfConstruct block parent = inspect_for_body block parent"

text \<open>
  The type switch in the visitor of \<open>findBlockScopesAtLine\<close>: what one visited node,
  whose lines contain the target line, appends to \<open>scopes\<close>.
\<close>

fun scope_of :: "node \<Rightarrow> int \<Rightarrow> string list" where
  "scope_of (IfStmt p start end pre body els) targetLine =
     (if start \<le> targetLine \<and> targetLine \<le> end then [lines_label ''if'' start end] else [])"
| "scope_of (ForStmt p start end pre body) targetLine =
     (if start \<le> targetLine \<and> targetLine \<le> end then [lines_label ''for'' start end] else [])"
| "scope_of (RangeStmt p start end pre body) targetLine =
     (if start \<le> targetLine \<and> targetLine \<le> end then [lines_label ''range'' start end] else [])"
| "scope_of (SwitchStmt p start end pre body) targetLine =
     (if start \<le> targetLine \<and> targetLine \<le> end then [lines_label ''switch'' start end] else [])"
| "scope_of (TypeSwitchStmt p start end pre body) targetLine =
     (if start \<le> targetLine \<and> targetLine \<le> end then [lines_label ''type-switch'' start end]
      else [])"
| "scope_of (SelectStmt p start end body) targetLine =
     (if start \<le> targetLine \<and> targetLine \<le> end then [lines_label ''select'' start end] else [])"
| "scope_of (BlockStmt p start end list) targetLine =
     (if start \<le> targetLine \<and> targetLine \<le> end
         \<and> \<not> isPartOfConstruct (BlockStmt p start end list) (BlockStmt p start end list)
      then [lines_label ''block'' start end] else [])"
| "scope_of (CaseClause p start end list body) targetLine = []"
| "scope_of (CommClause p start end comm body) targetLine = []"
| "scope_of (FuncLit p start end pre body) targetLine = []"
| "scope_of (OtherNode p start end cs) targetLine = []"

text \<open>
  \<open>ast.Inspect(stmt, ...)\<close> of \<open>findBlockScopesAtLine\<close>: a node whose lines do not
  contain the target line is skipped with all below it; otherwise the node appends its
  scope and its children are visited in order.
\<close>

function inspect_scopes :: "node \<Rightarrow> int \<Rightarrow> string list" where
  "inspect_scopes n targetLine =
     (if targetLine < pos_line n \<or> targetLine > end_line n then []
      else scope_of n targetLine @ concat (map (\<lambda>c. inspect_scopes c targetLine) (children n)))"
  by pat_completeness auto
termination
  by (relation "measure (\<lambda>(n, targetLine). size n)") (auto simp: size_children)

declare inspect_scopes.simps [simp del]

definition findBlockScopesAtLine :: "node \<Rightarrow> int \<Rightarrow> string list" where
  "findBlockScopesAtLine stmt targetLine = inspect_scopes stmt targetLine"

definition extractReceiverTypeSimple :: "expr \<Rightarrow> string" where
  "extractReceiverTypeSimple x =
     (case x of
        Ident name \<Rightarrow> name
      | StarExpr (Ident name) \<Rightarrow> ''*'' @ name
      | _ \<Rightarrow> ''unknown'')"

text \<open>The first loop of \<open>buildScopeHierarchyAtLine\<close>: the type declarations.\<close>

definition type_scopes :: "decl list \<Rightarrow> int \<Rightarrow> string list" where
  "type_scopes decls targetLine =
     concat (map (\<lambda>d. case d of
         GenDecl g \<Rightarrow>
           (if gd_tok g = TYPE_tok then
              concat (map (\<lambda>s. case s of
                  TypeSpec t \<Rightarrow>
                    (if targetLine \<ge> ts_line t \<and> targetLine \<le> ts_endLine t
                     then [lines_label (''type '' @ ts_name t) (ts_line t) (ts_endLine t)]
                     else [])
                | _ \<Rightarrow> []) (gd_specs g))
            else [])
       | _ \<Rightarrow> []) decls)"

text \<open>
  The second loop: functions and methods. \<open>funcDecl.Recv.List[0]\<close> of a receiver list
  that is empty panics (index out of range): the result is then \<open>None\<close>.
\<close>

fun func_scopes :: "decl list \<Rightarrow> int \<Rightarrow> string list option" where
  "func_scopes [] targetLine = Some []"
| "func_scopes (FuncDecl f # ds) targetLine =
     (if targetLine \<ge> fn_line f \<and> targetLine \<le> fn_endLine f then
        (case (case fn_recv f of
                 Some [] \<Rightarrow> None
               | Some (recv # rest) \<Rightarrow>
                   Some (lines_label (''method '' @ extractReceiverTypeSimple recv @ ''.''
                                        @ fn_name f) (fn_line f) (fn_endLine f))
               | None \<Rightarrow>
                   Some (lines_label (''function '' @ fn_name f) (fn_line f) (fn_endLine f)))
         of
           None \<Rightarrow> None
         | Some funcScope \<Rightarrow>
             (let blockHierarchy =
                (case fn_body f of
                   None \<Rightarrow> []
                 | Some body \<Rightarrow> findBlockScopesAtLine (body_stmt body) targetLine)
              in map_option (\<lambda>later. funcScope # blockHierarchy @ later)
                   (func_scopes ds targetLine)))
      else func_scopes ds targetLine)"
| "func_scopes (d # ds) targetLine = func_scopes ds targetLine"

definition buildScopeHierarchyAtLine :: "ast_file \<Rightarrow> int \<Rightarrow> string list option" where
  "buildScopeHierarchyAtLine file targetLine =
     map_option (\<lambda>funcs. [''package '' @ file_pkg file] @ type_scopes (file_decls file) targetLine
                          @ funcs)
       (func_scopes (file_decls file) targetLine)"

section \<open>Declaration formatter\<close>

abbreviation NL :: string where
  "NL \<equiv> [CHR 0x0A]"

text \<open>
  \<open>strconv.Atoi\<close>: an optional sign, then decimal digits only, at least one; a value
  outside the 64-bit range is an error.
\<close>

definition is_digit :: "char \<Rightarrow> bool" where
  "is_digit c \<longleftrightarrow> of_char CHR ''0'' \<le> (of_char c :: nat) \<and> (of_char c :: nat) \<le> of_char CHR ''9''"

definition digits_value :: "string \<Rightarrow> nat" where
  "digits_value s = foldl (\<lambda>acc c. 10 * acc + (of_char c - of_char CHR ''0'')) 0 s"

definition Atoi :: "string \<Rightarrow> int option" where
  "Atoi s =
     (let neg = (s \<noteq> [] \<and> hd s = CHR ''-'');
          body = (if s \<noteq> [] \<and> (hd s = CHR ''-'' \<or> hd s = CHR ''+'') then tl s else s)
      in if body = [] \<or> \<not> list_all is_digit body then None
         else
           (let v = (if neg then - int (digits_value body) else int (digits_value body))
            in if v < - (2 ^ 63) \<or> v > 2 ^ 63 - 1 then None else Some v))"

text \<open>
  The tokens of a \<open>bufio.Scanner\<close> with \<open>bufio.ScanLines\<close>: the pieces between line
  feeds, without a final empty piece. \<open>dropCR\<close> takes the carriage return from the end
  of a token.
\<close>

definition scan_tokens :: "string \<Rightarrow> string list" where
  "scan_tokens content =
     (let pieces = split_lines content in
        if last pieces = [] then butlast pieces else pieces)"

definition dropCR :: "string \<Rightarrow> string" where
  "dropCR l = (if l \<noteq> [] \<and> last l = CHR 0x0D then butlast l else l)"

text \<open>
  The loop \<open>for scanner.Scan()\<close> of \<open>readSourceLines\<close> over the tokens still to be
  read, with \<open>lineNum\<close> and the \<open>lines\<close> collected so far. \<open>Scan\<close> fails on a token
  that does not fit the scanner's buffer of \<open>bufio.MaxScanTokenSize\<close> = 65536 bytes
  together with its line feed, that is on a line of 65536 bytes or more; the loop then
  ends and \<open>scanner.Err()\<close> is \<open>bufio.ErrTooLong\<close>. The \<open>break\<close> leaves the lines
  after \<open>endLine + 1\<close> unread.
\<close>

fun scan_loop :: "string list \<Rightarrow> int \<Rightarrow> int \<Rightarrow> int \<Rightarrow> string list \<Rightarrow> error + string list" where
  "scan_loop [] lineNum startLine endLine lines = Inr lines"
| "scan_loop (token # rest) lineNum startLine endLine lines =
     (if int (length token) \<ge> 65536 then Inl ScannerTokenTooLong
      else
        (let lines' = (if lineNum \<ge> startLine \<and> lineNum \<le> endLine
                       then lines @ [dropCR token] else lines)
         in if lineNum > endLine then Inr lines'
            else scan_loop rest (lineNum + 1) startLine endLine lines'))"

text \<open>
  \<open>readSourceLines\<close>: the lines numbered \<open>startLine\<close> to \<open>endLine\<close> (from 1), joined
  by line feeds. \<open>os.Open\<close> and the reads of the scanner are \<open>os_ReadFile\<close>.
\<close>

definition readSourceLines :: "world \<Rightarrow> string \<Rightarrow> int \<Rightarrow> int \<Rightarrow> error + string" where
  "readSourceLines w filename startLine endLine =
     (case os_ReadFile w filename of
        Inl err \<Rightarrow> Inl err
      | Inr content \<Rightarrow>
          (case scan_loop (scan_tokens content) 1 startLine endLine [] of
             Inl err \<Rightarrow> Inl err
           | Inr lines \<Rightarrow> Inr (join NL lines)))"

definition isFileInWorkspace :: "world \<Rightarrow> string \<Rightarrow> string \<Rightarrow> bool" where
  "isFileInWorkspace w filePath workspaceDir =
     (if workspaceDir = [] then False
      else
        (case filepath_Abs w filePath of
           Inl err \<Rightarrow> False
         | Inr absFilePath \<Rightarrow>
             (case filepath_Abs w workspaceDir of
                Inl err \<Rightarrow> False
              | Inr absWorkspaceDir \<Rightarrow>
                  (case filepath_Rel w absWorkspaceDir absFilePath of
                     Inl err \<Rightarrow> False
                   | Inr rel \<Rightarrow> \<not> HasPrefix rel ''..''))))"

text \<open>
  \<open>unicode.IsUpper\<close>: up to \<open>unicode.MaxLatin1\<close> (U+00FF) the upper-case letters of the
  table \<open>properties\<close>, which are \<open>A\<close> to \<open>Z\<close>, U+00C0 to U+00D6 and U+00D8 to U+00DE;
  beyond, the range table \<open>unicode.Upper\<close>.
\<close>

definition IsUpper :: "world \<Rightarrow> int \<Rightarrow> bool" where
  "IsUpper w r \<longleftrightarrow>
     (if r \<le> 0xFF then (0x41 \<le> r \<and> r \<le> 0x5A) \<or> (0xC0 \<le> r \<and> r \<le> 0xD6) \<or> (0xD8 \<le> r \<and> r \<le> 0xDE)
      else unicode_Upper w r)"

text \<open>
  \<open>ast.IsExported\<close>, which is \<open>token.IsExported\<close>: the first character of the name, as
  \<open>utf8.DecodeRuneInString\<close> reads it, is an upper-case letter.
\<close>

definition IsExported :: "world \<Rightarrow> string \<Rightarrow> bool" where
  "IsExported w name \<longleftrightarrow> IsUpper w (DecodeRuneInString name)"

definition extractReceiverTypeName :: "expr \<Rightarrow> string" where
  "extractReceiverTypeName x =
     (case x of
        Ident name \<Rightarrow> name
      | StarExpr (Ident name) \<Rightarrow> name
      | _ \<Rightarrow> [])"

text \<open>The \<open>Lines:\<close> section, common to the three formatters.\<close>

definition lines_section :: "int \<Rightarrow> int \<Rightarrow> string" where
  "lines_section start end =
     (if end > start then ''Lines: '' @ show_int start @ ''-'' @ show_int end @ NL
      else ''Lines: '' @ show_int start @ NL)"

text \<open>
  \<open>formatFunction\<close> up to its \<open>Code:\<close> section: what it writes before it looks at
  \<open>includeReferences\<close> and \<open>includeCallHierarchy\<close>.
\<close>

definition formatFunction_code :: "world \<Rightarrow> funcDecl \<Rightarrow> string" where
  "formatFunction_code w fn =
     (let bodyEndLine = (case fn_body fn of Some body \<Rightarrow> body_endLine body
                                           | None \<Rightarrow> fn_endLine fn);
          endLine = (case fn_body fn of Some body \<Rightarrow> body_preLine body
                                       | None \<Rightarrow> fn_endLine fn)
      in lines_section (fn_line fn) bodyEndLine
         @ (case fn_doc fn of
              Some doc \<Rightarrow> ''Docstring: '' @ TrimSpace doc @ NL
            | None \<Rightarrow> [])
         @ ''Code:'' @ NL
         @ (case readSourceLines w (fn_filename fn) (fn_line fn) endLine of
              Inr rawSource \<Rightarrow>
                (let trimmed = TrimSpace rawSource in
                   if HasSuffix trimmed ''{'' then TrimSpace (butlast trimmed) else trimmed)
            | Inl err \<Rightarrow> ''// Error reading source: '' @ error_text err))"

text \<open>\<open>formatType\<close> up to its \<open>Code:\<close> section.\<close>

definition formatType_code :: "world \<Rightarrow> typeSpec \<Rightarrow> genDecl option \<Rightarrow> string" where
  "formatType_code w typeSpec parentGenDecl =
     (let docText =
        (case ts_doc typeSpec of
           Some doc \<Rightarrow> doc
         | None \<Rightarrow>
             (case parentGenDecl of
                Some parent \<Rightarrow> (case gd_doc parent of Some doc \<Rightarrow> doc | None \<Rightarrow> [])
              | None \<Rightarrow> []))
      in lines_section (ts_line typeSpec) (ts_endLine typeSpec)
         @ (if docText \<noteq> [] then ''Docstring: '' @ TrimSpace docText @ NL else [])
         @ ''Code:'' @ NL
         @ (case readSourceLines w (ts_filename typeSpec) (ts_line typeSpec)
                   (ts_endLine typeSpec) of
              Inr rawSource \<Rightarrow> rawSource
            | Inl err \<Rightarrow> ''// Error reading source: '' @ error_text err))"

text \<open>\<open>formatVariable\<close> up to its \<open>Code:\<close> section.\<close>

definition formatVariable_code :: "world \<Rightarrow> valueSpec \<Rightarrow> genDecl option \<Rightarrow> string" where
  "formatVariable_code w valueSpec parentGenDecl =
     (let docText =
        (case vs_doc valueSpec of
           Some doc \<Rightarrow> doc
         | None \<Rightarrow>
             (case parentGenDecl of
                Some parent \<Rightarrow> (case gd_doc parent of Some doc \<Rightarrow> doc | None \<Rightarrow> [])
              | None \<Rightarrow> []))
      in lines_section (vs_line valueSpec) (vs_endLine valueSpec)
         @ (if docText \<noteq> [] then ''Docstring: '' @ TrimSpace docText @ NL else [])
         @ ''Code:'' @ NL
         @ (case readSourceLines w (vs_filename valueSpec) (vs_line valueSpec)
                   (vs_endLine valueSpec) of
              Inr rawSource \<Rightarrow> rawSource
            | Inl err \<Rightarrow> ''// Error reading source: '' @ error_text err))"

text \<open>
  A builder with the closure \<open>addSeparator\<close> over \<open>lineWritten\<close>: the text written so
  far and the flag.
\<close>

type_synonym writer = "string \<times> bool"

definition addSeparator :: "writer \<Rightarrow> writer" where
  "addSeparator b = (case b of (out, lineWritten) \<Rightarrow>
     (if lineWritten then out @ NL @ NL else out, True))"

definition WriteString :: "string \<Rightarrow> writer \<Rightarrow> writer" where
  "WriteString s b = (case b of (out, lineWritten) \<Rightarrow> (out @ s, lineWritten))"

text \<open>
  The loop that writes a formatted declaration into a section, line by line: an empty
  line is skipped, every other line is written after a separator, indented by two spaces.
\<close>

definition write_indented :: "string \<Rightarrow> writer \<Rightarrow> writer" where
  "write_indented text b =
     foldl (\<lambda>b line. if line = [] then b
                      else WriteString (''  '' @ line @ NL) (addSeparator b))
       b (split_lines text)"

definition formatCallHierarchy :: "world \<Rightarrow> string \<Rightarrow> int \<Rightarrow> string \<Rightarrow> string" where
  "formatCallHierarchy w filePath lineNumber symbolName =
     ''Call Hierarchy:'' @ NL @
     (if filePath = [] \<or> lineNumber \<le> 0 \<or> symbolName = [] then
        ''Invalid parameters for finding call hierarchy'' @ NL
      else
        (case fst (createGoplsPosition w filePath lineNumber symbolName) of
           Inl err \<Rightarrow> ''Failed to find call hierarchy: '' @ error_text err @ NL
         | Inr position \<Rightarrow>
             (case executeGoplsCommand w [''call_hierarchy'', position] of
                Inl err \<Rightarrow> ''gopls call_hierarchy failed: '' @ error_text err @ NL
              | Inr outputStr \<Rightarrow>
                  (if outputStr = [] then ''No call hierarchy found'' @ NL
                   else outputStr @ NL))))"

section \<open>References, implementers and scope sections\<close>

text \<open>The function declarations of a file, in source order.\<close>

definition func_decls :: "decl list \<Rightarrow> funcDecl list" where
  "func_decls decls = concat (map (\<lambda>d. case d of FuncDecl f \<Rightarrow> [f] | _ \<Rightarrow> []) decls)"

definition determineScope ::
  "world \<Rightarrow> fileCache \<Rightarrow> string \<Rightarrow> int \<Rightarrow> (error + string) \<times> fileCache" where
  "determineScope w cache filePath lineNumber =
     (case GetOrParseFile w cache filePath of
        (Inl err, cache') \<Rightarrow> (Inl err, cache')
      | (Inr cachedFile, cache') \<Rightarrow>
          (case find (\<lambda>f. lineNumber \<ge> fn_line f \<and> lineNumber \<le> fn_endLine f)
                  (func_decls (file_decls (cf_ast cachedFile))) of
             Some funcDecl \<Rightarrow>
               (Inr (filePath @ '':'' @ show_int (fn_line funcDecl) @ '':'' @ fn_name funcDecl),
                cache')
           | None \<Rightarrow> (Inr filePath, cache')))"

definition findTypeAtLine :: "ast_file \<Rightarrow> int \<Rightarrow> typeSpec option" where
  "findTypeAtLine file targetLine =
     find (\<lambda>t. targetLine \<ge> ts_line t \<and> targetLine \<le> ts_endLine t)
       (concat (map (\<lambda>d. case d of
            GenDecl g \<Rightarrow>
              (if gd_tok g = TYPE_tok
               then concat (map (\<lambda>s. case s of TypeSpec t \<Rightarrow> [t] | _ \<Rightarrow> []) (gd_specs g))
               else [])
          | _ \<Rightarrow> []) (file_decls file)))"

text \<open>
  A Go map used as a set of strings (\<open>map[string]bool\<close>) is the list of its keys in the
  order of their first insertion. The order in which \<open>range\<close> visits the keys is chosen
  by the runtime at every loop: it is a parameter, \<open>iter\<close>, that maps the list of keys
  to the list in the order of the visit.
\<close>

definition map_add :: "string \<Rightarrow> string list \<Rightarrow> string list" where
  "map_add k ks = (if k \<in> set ks then ks else ks @ [k])"

text \<open>The body of the loop of \<open>formatReferences\<close> over the lines of the output of gopls.\<close>

definition group_reference ::
  "world \<Rightarrow> string list \<times> string list \<times> fileCache \<Rightarrow> string
     \<Rightarrow> string list \<times> string list \<times> fileCache" where
  "group_reference w st line0 =
     (case st of (functionScopes, packageFiles, cache) \<Rightarrow>
        (let line = TrimSpace line0 in
           if line = [] then st
           else
             (let parts = split_on (CHR '':'') line in
                if length parts < 3 then st
                else
                  (let fp = join '':'' (take (length parts - 2) parts) in
                     case Atoi (parts ! (length parts - 2)) of
                       None \<Rightarrow> st
                     | Some ln \<Rightarrow>
                         (case determineScope w cache fp ln of
                            (Inl err, cache') \<Rightarrow>
                              (functionScopes, map_add fp packageFiles, cache')
                          | (Inr scope, cache') \<Rightarrow>
                              (if scope \<noteq> fp
                               then (map_add scope functionScopes, packageFiles, cache')
                               else (functionScopes, map_add fp packageFiles, cache')))))))"

text \<open>
  The body of the loop over \<open>functionScopes\<close>. The call
  \<open>formatFunction(&tempBuilder, funcDecl, fset, false, false, "")\<close> writes the sections
  up to the code (lemma \<open>formatFunction_plain\<close> below).
\<close>

definition reference_scope ::
  "world \<Rightarrow> writer \<times> fileCache \<Rightarrow> string \<Rightarrow> writer \<times> fileCache" where
  "reference_scope w st scope =
     (case st of (b, cache) \<Rightarrow>
        (let parts = split_on (CHR '':'') scope in
           if length parts < 3 then st
           else
             (let fp = join '':'' (take (length parts - 2) parts) in
                case Atoi (parts ! (length parts - 2)) of
                  None \<Rightarrow> st
                | Some ln \<Rightarrow>
                    (case GetOrParseFile w cache fp of
                       (Inl err, cache') \<Rightarrow>
                         (WriteString (''  Error parsing file '' @ fp @ '': ''
                                         @ error_text err @ NL) b, cache')
                     | (Inr cachedFile, cache') \<Rightarrow>
                         (case find (\<lambda>f. \<not> (ln < fn_line f \<or> ln > fn_endLine f))
                                 (func_decls (file_decls (cf_ast cachedFile))) of
                            None \<Rightarrow> (b, cache')
                          | Some funcDecl \<Rightarrow>
                              (write_indented (formatFunction_code w funcDecl) b, cache'))))))"

definition formatReferences ::
  "world \<Rightarrow> (string list \<Rightarrow> string list) \<Rightarrow> fileCache \<Rightarrow> string \<Rightarrow> int \<Rightarrow> string
     \<Rightarrow> string \<times> fileCache" where
  "formatReferences w iter cache filePath lineNumber symbolName =
     (if filePath = [] \<or> lineNumber \<le> 0 \<or> symbolName = [] then
        (''References:'' @ NL @ ''Invalid parameters for finding references'' @ NL, cache)
      else
        (case fst (createGoplsPosition w filePath lineNumber symbolName) of
           Inl err \<Rightarrow>
             (''References:'' @ NL @ ''Failed to find references: '' @ error_text err @ NL,
              cache)
         | Inr position \<Rightarrow>
             (let result = executeGoplsCommand w [''references'', position];
                  failure = (case result of
                               Inl err \<Rightarrow> ''gopls references failed: '' @ error_text err @ NL
                             | Inr out \<Rightarrow> []);
                  outputStr = (case result of Inl err \<Rightarrow> [] | Inr out \<Rightarrow> out)
              in
                if outputStr = [] then
                  (''References:'' @ NL @ failure @ ''No references found'' @ NL, cache)
                else
                  (case foldl (group_reference w) ([], [], cache) (split_lines outputStr) of
                     (functionScopes, packageFiles, cache1) \<Rightarrow>
                       (if functionScopes = [] \<and> packageFiles = [] then
                          (''References:'' @ NL @ failure @ ''No references found'' @ NL,
                           cache1)
                        else
                          (case foldl (reference_scope w) (([], False), cache1)
                                  (iter functionScopes) of
                             (b, cache2) \<Rightarrow>
                               (''References:'' @ NL @ failure
                                  @ fst (foldl (\<lambda>b fp. WriteString (''  Package scope: '' @ fp @ NL)
                                                         (addSeparator b))
                                          b (iter packageFiles)),
                                cache2)))))))"

text \<open>
  The map \<open>implementers\<close> (\<open>map[string][]int\<close>) is the list of its keys with their
  values, in the order of the first insertion of the keys.
\<close>

definition implementers_add ::
  "string \<Rightarrow> int \<Rightarrow> (string \<times> int list) list \<Rightarrow> (string \<times> int list) list" where
  "implementers_add fp ln m =
     (if fp \<in> fst ` set m then map (\<lambda>(k, lns). if k = fp then (k, lns @ [ln]) else (k, lns)) m
      else m @ [(fp, [ln])])"

definition collect_implementer ::
  "(string \<times> int list) list \<Rightarrow> string \<Rightarrow> (string \<times> int list) list" where
  "collect_implementer implementers line0 =
     (let line = TrimSpace line0 in
        if line = [] then implementers
        else
          (let parts = split_on (CHR '':'') line in
             if length parts < 3 then implementers
             else
               (let fp = join '':'' (take (length parts - 2) parts) in
                  case Atoi (parts ! (length parts - 2)) of
                    None \<Rightarrow> implementers
                  | Some ln \<Rightarrow> implementers_add fp ln implementers)))"

text \<open>
  The body of the inner loop of \<open>formatImplementers\<close>, for one location. The call
  \<open>formatType(&tempBuilder, typeSpec, fset, false, false, false, nil, "")\<close> writes the
  sections up to the code (lemma \<open>formatType_plain\<close> below).
\<close>

definition implementer_at ::
  "world \<Rightarrow> string \<Rightarrow> writer \<times> fileCache \<Rightarrow> int \<Rightarrow> writer \<times> fileCache" where
  "implementer_at w fp st ln =
     (case st of (b, cache) \<Rightarrow>
        (case GetOrParseFile w cache fp of
           (Inl err, cache') \<Rightarrow>
             (WriteString (''  Error parsing file '' @ fp @ '': '' @ error_text err @ NL)
                (addSeparator b), cache')
         | (Inr cachedFile, cache') \<Rightarrow>
             (case findTypeAtLine (cf_ast cachedFile) ln of
                None \<Rightarrow>
                  (WriteString (''  No type found at '' @ fp @ '':'' @ show_int ln @ NL)
                     (addSeparator b), cache')
              | Some typeSpec \<Rightarrow>
                  (write_indented (formatType_code w typeSpec None) b, cache'))))"

definition formatImplementers ::
  "world \<Rightarrow> (string list \<Rightarrow> string list) \<Rightarrow> fileCache \<Rightarrow> string \<Rightarrow> int \<Rightarrow> string
     \<Rightarrow> string \<times> fileCache" where
  "formatImplementers w iter cache filePath lineNumber symbolName =
     (if filePath = [] \<or> lineNumber \<le> 0 \<or> symbolName = [] then
        (''Implementers:'' @ NL @ ''Invalid parameters for finding implementers'' @ NL, cache)
      else
        (case fst (createGoplsPosition w filePath lineNumber symbolName) of
           Inl err \<Rightarrow>
             (''Implementers:'' @ NL @ ''Failed to find implementers: '' @ error_text err @ NL,
              cache)
         | Inr position \<Rightarrow>
             (case executeGoplsCommand w [''implementation'', position] of
                Inl err \<Rightarrow>
                  (''Implementers:'' @ NL @ ''gopls implementation failed: '' @ error_text err
                     @ NL, cache)
              | Inr outputStr \<Rightarrow>
                  (if outputStr = [] then
                     (''Implementers:'' @ NL @ ''No implementers found'' @ NL, cache)
                   else
                     (let implementers =
                            foldl collect_implementer [] (split_lines outputStr)
                      in
                        if implementers = [] then
                          (''Implementers:'' @ NL @ ''No implementers found'' @ NL, cache)
                        else
                          (case foldl (\<lambda>st fp.
                                   foldl (implementer_at w fp) st
                                     (case map_of implementers fp of
                                        Some lns \<Rightarrow> lns | None \<Rightarrow> []))
                                  (([], False), cache) (iter (map fst implementers)) of
                             (b, cache') \<Rightarrow> (''Implementers:'' @ NL @ fst b, cache')))))))"

text \<open>
  \<open>formatScope\<close>; the text is \<open>None\<close> when \<open>buildScopeHierarchyAtLine\<close> panics.
\<close>

definition formatScope ::
  "world \<Rightarrow> fileCache \<Rightarrow> string \<Rightarrow> int \<Rightarrow> string option \<times> fileCache" where
  "formatScope w cache filePath lineNumber =
     (if filePath = [] \<or> lineNumber \<le> 0 then
        (Some (''Scope:'' @ NL @ ''Invalid parameters for determining scope'' @ NL), cache)
      else
        (case GetOrParseFile w cache filePath of
           (Inl err, cache') \<Rightarrow>
             (Some (''Scope:'' @ NL @ ''Error parsing file: '' @ error_text err @ NL), cache')
         | (Inr cachedFile, cache') \<Rightarrow>
             (case buildScopeHierarchyAtLine (cf_ast cachedFile) lineNumber of
                None \<Rightarrow> (None, cache')
              | Some hierarchy \<Rightarrow>
                  (Some (''Scope:'' @ NL
                         @ concat (map (\<lambda>(i, scope). concat (replicate i ''  '') @ scope @ NL)
                                     (zip [0..<length hierarchy] hierarchy))),
                   cache'))))"

section \<open>formatFunction, formatType, formatVariable, formatFile, formatPackage\<close>

definition formatFunction ::
  "world \<Rightarrow> (string list \<Rightarrow> string list) \<Rightarrow> fileCache \<Rightarrow> funcDecl \<Rightarrow> bool \<Rightarrow> bool \<Rightarrow> string
     \<Rightarrow> string \<times> fileCache" where
  "formatFunction w iter cache fn includeReferences includeCallHierarchy workspaceDir =
     (let code = formatFunction_code w fn;
          isInWorkspace = isFileInWorkspace w (fn_filename fn) workspaceDir
      in
        case (if includeReferences \<and> isInWorkspace
              then (case formatReferences w iter cache (fn_filename fn) (fn_line fn)
                           (fn_name fn) of
                      (text, cache') \<Rightarrow> (NL @ NL @ text, cache'))
              else ([], cache)) of
          (references, cache1) \<Rightarrow>
            (code @ references
               @ (if includeCallHierarchy \<and> isInWorkspace
                  then NL @ NL @ formatCallHierarchy w (fn_filename fn) (fn_line fn) (fn_name fn)
                  else []),
             cache1))"

text \<open>The methods that \<open>formatType\<close> lists: the declarations whose first receiver has
  the type's name.\<close>

definition methods_of :: "string \<Rightarrow> decl list \<Rightarrow> funcDecl list" where
  "methods_of typeName decls =
     filter (\<lambda>f. case fn_recv f of
                   Some (recv # rest) \<Rightarrow> extractReceiverTypeName recv = typeName
                 | _ \<Rightarrow> False)
       (func_decls decls)"

definition formatType ::
  "world \<Rightarrow> (string list \<Rightarrow> string list) \<Rightarrow> fileCache \<Rightarrow> typeSpec \<Rightarrow> bool \<Rightarrow> bool \<Rightarrow> bool
     \<Rightarrow> genDecl option \<Rightarrow> string \<Rightarrow> string \<times> fileCache" where
  "formatType w iter cache typeSpec includeReferences includeImplementers includeMethods
       parentGenDecl workspaceDir =
     (let code = formatType_code w typeSpec parentGenDecl;
          isInWorkspace = isFileInWorkspace w (ts_filename typeSpec) workspaceDir
      in
        case (if ts_type typeSpec = InterfaceType True \<and> includeImplementers \<and> isInWorkspace
              then (case formatImplementers w iter cache (ts_filename typeSpec)
                           (ts_line typeSpec) (ts_name typeSpec) of
                      (text, cache') \<Rightarrow> (NL @ NL @ text, cache'))
              else ([], cache)) of
          (implementers, cache1) \<Rightarrow>
            (case (if includeMethods
                   then (case GetOrParseFile w cache1 (ts_filename typeSpec) of
                           (Inl err, cache') \<Rightarrow> ([], cache')
                         | (Inr cachedFile, cache') \<Rightarrow>
                             foldl (\<lambda>(out, c) method.
                                      case formatFunction w iter c method False False
                                             workspaceDir of
                                        (text, c') \<Rightarrow> (out @ NL @ NL @ text, c'))
                               ([], cache')
                               (methods_of (ts_name typeSpec)
                                  (file_decls (cf_ast cachedFile))))
                   else ([], cache1)) of
               (methods, cache2) \<Rightarrow>
                 (case (if includeReferences \<and> isInWorkspace
                        then (case formatReferences w iter cache2 (ts_filename typeSpec)
                                     (ts_line typeSpec) (ts_name typeSpec) of
                                (text, cache') \<Rightarrow> (NL @ NL @ text, cache'))
                        else ([], cache2)) of
                    (references, cache3) \<Rightarrow>
                      (code @ implementers @ methods @ references, cache3))))"

text \<open>\<open>formatVariable\<close>; the text is \<open>None\<close> when \<open>formatScope\<close> panics.\<close>

definition formatVariable ::
  "world \<Rightarrow> (string list \<Rightarrow> string list) \<Rightarrow> fileCache \<Rightarrow> valueSpec \<Rightarrow> bool \<Rightarrow> bool
     \<Rightarrow> genDecl option \<Rightarrow> string \<Rightarrow> string option \<times> fileCache" where
  "formatVariable w iter cache valueSpec includeReferences includeScope parentGenDecl
       workspaceDir =
     (let code = formatVariable_code w valueSpec parentGenDecl in
        case (if includeScope
              then (case formatScope w cache (vs_filename valueSpec) (vs_line valueSpec) of
                      (None, cache') \<Rightarrow> (None, cache')
                    | (Some text, cache') \<Rightarrow> (Some (NL @ text), cache'))
              else (Some [], cache)) of
          (None, cache1) \<Rightarrow> (None, cache1)
        | (Some scope, cache1) \<Rightarrow>
            (if includeReferences
                \<and> isFileInWorkspace w (vs_filename valueSpec) workspaceDir
             then
               (case foldl (\<lambda>(out, c) name.
                              case formatReferences w iter c (vs_filename valueSpec)
                                     (vs_line valueSpec) name of
                                (text, c') \<Rightarrow> (out @ NL @ NL @ text, c'))
                       ([], cache1) (vs_names valueSpec) of
                  (references, cache2) \<Rightarrow> (Some (code @ scope @ references), cache2))
             else (Some (code @ scope), cache1)))"

text \<open>
  The second pass of \<open>formatFile\<close>. The state is the builder with \<open>lineWritten\<close> and the
  cache; \<open>None\<close> is a panic. \<open>formatSpecs\<close> is the loop over the specifications of one
  \<open>GenDecl\<close>, \<open>formatDecls\<close> the loop over the declarations.
\<close>

fun formatSpecs ::
  "world \<Rightarrow> (string list \<Rightarrow> string list) \<Rightarrow> bool \<Rightarrow> string \<Rightarrow> genDecl \<Rightarrow> spec list
     \<Rightarrow> writer \<times> fileCache \<Rightarrow> (writer \<times> fileCache) option" where
  "formatSpecs w iter includePrivate workspaceDir d [] st = Some st"
| "formatSpecs w iter includePrivate workspaceDir d (ImportSpec i # specs) st =
     formatSpecs w iter includePrivate workspaceDir d specs st"
| "formatSpecs w iter includePrivate workspaceDir d (TypeSpec s # specs) st =
     (if includePrivate \<or> IsExported w (ts_name s) then
        (case st of (b, cache) \<Rightarrow>
           (case formatType w iter cache s False False False (Some d) workspaceDir of
              (text, cache') \<Rightarrow>
                formatSpecs w iter includePrivate workspaceDir d specs
                  (WriteString text (addSeparator b), cache')))
      else formatSpecs w iter includePrivate workspaceDir d specs st)"
| "formatSpecs w iter includePrivate workspaceDir d (ValueSpec s # specs) st =
     (let shouldInclude = (includePrivate \<or> list_ex (IsExported w) (vs_names s)) in
        if shouldInclude then
          (case st of (b, cache) \<Rightarrow>
             (case formatVariable w iter cache s False False (Some d) workspaceDir of
                (None, cache') \<Rightarrow> None
              | (Some text, cache') \<Rightarrow>
                  formatSpecs w iter includePrivate workspaceDir d specs
                    (WriteString text (addSeparator b), cache')))
        else formatSpecs w iter includePrivate workspaceDir d specs st)"

fun formatDecls ::
  "world \<Rightarrow> (string list \<Rightarrow> string list) \<Rightarrow> bool \<Rightarrow> string \<Rightarrow> decl list
     \<Rightarrow> writer \<times> fileCache \<Rightarrow> (writer \<times> fileCache) option" where
  "formatDecls w iter includePrivate workspaceDir [] st = Some st"
| "formatDecls w iter includePrivate workspaceDir (FuncDecl d # decls) st =
     (if includePrivate \<or> IsExported w (fn_name d) then
        (case st of (b, cache) \<Rightarrow>
           (case formatFunction w iter cache d False False workspaceDir of
              (text, cache') \<Rightarrow>
                formatDecls w iter includePrivate workspaceDir decls
                  (WriteString text (addSeparator b), cache')))
      else formatDecls w iter includePrivate workspaceDir decls st)"
| "formatDecls w iter includePrivate workspaceDir (GenDecl d # decls) st =
     (case formatSpecs w iter includePrivate workspaceDir d (gd_specs d) st of
        None \<Rightarrow> None
      | Some st' \<Rightarrow> formatDecls w iter includePrivate workspaceDir decls st')"
| "formatDecls w iter includePrivate workspaceDir (BadDecl # decls) st =
     formatDecls w iter includePrivate workspaceDir decls st"

text \<open>The first pass of \<open>formatFile\<close>: the source text of every import.\<close>

definition import_lines :: "world \<Rightarrow> decl list \<Rightarrow> string list" where
  "import_lines w decls =
     concat (map (\<lambda>d. case d of
         GenDecl g \<Rightarrow>
           concat (map (\<lambda>s. case s of
               ImportSpec i \<Rightarrow>
                 [case readSourceLines w (is_filename i) (is_line i) (is_endLine i) of
                    Inr rawSource \<Rightarrow> TrimSpace rawSource
                  | Inl err \<Rightarrow> ''// Error reading source: '' @ error_text err]
             | _ \<Rightarrow> []) (gd_specs g))
       | _ \<Rightarrow> []) decls)"

definition formatFile ::
  "world \<Rightarrow> (string list \<Rightarrow> string list) \<Rightarrow> fileCache \<Rightarrow> ast_file \<Rightarrow> bool \<Rightarrow> bool \<Rightarrow> string
     \<Rightarrow> string option \<times> fileCache" where
  "formatFile w iter cache file includePrivate includeImports workspaceDir =
     (let b0 = ([], False);
          b1 = (case file_pos file of
                  Some filename \<Rightarrow> WriteString (''File: '' @ filename) (addSeparator b0)
                | None \<Rightarrow> b0);
          b2 = (case file_doc file of
                  Some doc \<Rightarrow>
                    WriteString (''File Docstring:'' @ NL @ TrimSpace doc) (addSeparator b1)
                | None \<Rightarrow> b1);
          imports = (if includeImports then import_lines w (file_decls file) else []);
          b3 = (if imports \<noteq> []
                then WriteString (''Imports:'' @ NL @ concat (map (\<lambda>imp. imp @ NL) imports))
                       (addSeparator b2)
                else b2)
      in
        case formatDecls w iter includePrivate workspaceDir (file_decls file) (b3, cache) of
          None \<Rightarrow> (None, cache)
        | Some (b, cache') \<Rightarrow> (Some (fst b), cache'))"

text \<open>\<open>strings.TrimPrefix\<close>.\<close>

definition TrimPrefix :: "string \<Rightarrow> string \<Rightarrow> string" where
  "TrimPrefix s p = (if HasPrefix s p then drop (length p) s else s)"

text \<open>The loop of \<open>formatPackage\<close> over the files of the package.\<close>

fun formatPackageFiles ::
  "world \<Rightarrow> (string list \<Rightarrow> string list) \<Rightarrow> bool \<Rightarrow> string \<Rightarrow> ast_file list \<Rightarrow> bool
     \<Rightarrow> string \<times> fileCache \<Rightarrow> (string \<times> fileCache) option" where
  "formatPackageFiles w iter includePrivate workspaceDir [] fileWritten st = Some st"
| "formatPackageFiles w iter includePrivate workspaceDir (file # rest) fileWritten st =
     (case st of (out, cache) \<Rightarrow>
        (case formatFile w iter cache file includePrivate False workspaceDir of
           (None, cache') \<Rightarrow> None
         | (Some text, cache') \<Rightarrow>
             formatPackageFiles w iter includePrivate workspaceDir rest True
               (out @ (if fileWritten then NL @ ''---'' @ NL else []) @ text, cache')))"

definition formatPackage ::
  "world \<Rightarrow> (string list \<Rightarrow> string list) \<Rightarrow> fileCache \<Rightarrow> package \<Rightarrow> bool \<Rightarrow> string
     \<Rightarrow> string option \<times> fileCache" where
  "formatPackage w iter cache pkg includePrivate workspaceDir =
     (let directory =
            (case pkg_Module pkg of
               Some (moduleDir, modulePath) \<Rightarrow>
                 (if moduleDir \<noteq> [] then
                    Some (''Directory: '' @ moduleDir
                      @ (if pkg_PkgPath pkg \<noteq> modulePath then
                           (let relPath = TrimPrefix (pkg_PkgPath pkg) modulePath in
                              if relPath \<noteq> [] \<and> relPath \<noteq> ''/''
                              then ''/'' @ TrimPrefix relPath ''/'' else [])
                         else [])
                      @ NL)
                  else None)
             | None \<Rightarrow> None);
          header =
            (case directory of
               Some text \<Rightarrow> text
             | None \<Rightarrow>
                 (case pkg_GoFiles pkg of
                    first # others \<Rightarrow> ''Directory: '' @ filepath_Dir w first @ NL
                  | [] \<Rightarrow> []))
            @ (if pkg_PkgPath pkg \<noteq> [] then ''Import Path: '' @ pkg_PkgPath pkg @ NL else [])
            @ NL @ NL
      in
        case formatPackageFiles w iter includePrivate workspaceDir (pkg_Syntax pkg) False
               (header, cache) of
          None \<Rightarrow> (None, cache)
        | Some (out, cache') \<Rightarrow> (Some out, cache'))"

section \<open>Inspect\<close>

text \<open>\<open>filepath.IsAbs\<close> on a system with \<open>/\<close> as separator.\<close>

definition filepath_IsAbs :: "string \<Rightarrow> bool" where
  "filepath_IsAbs p = HasPrefix p ''/''"

definition stat_ok :: "world \<Rightarrow> string \<Rightarrow> bool" where
  "stat_ok w p = (case os_Stat w p of StatOk t \<Rightarrow> True | _ \<Rightarrow> False)"

definition resolveFilePath :: "world \<Rightarrow> string \<Rightarrow> string \<Rightarrow> error + string" where
  "resolveFilePath w filePath workspaceDir =
     (case filepath_Abs w workspaceDir of
        Inl err \<Rightarrow> Inl (ResolveWorkspaceFailed err)
      | Inr absWorkspaceDir \<Rightarrow>
          (if filepath_IsAbs filePath then
             (if stat_ok w filePath then Inr filePath else Inl (AbsoluteFileMissing filePath))
           else
             (let candidatePaths =
                    (if HasPrefix filePath ''./'' \<or> HasPrefix filePath ''../''
                     then [filepath_Join w absWorkspaceDir filePath]
                     else [filepath_Join w absWorkspaceDir filePath,
                           filepath_Join w absWorkspaceDir (''./'' @ filePath)])
              in case find (stat_ok w) candidatePaths of
                   Some path \<Rightarrow> Inr path
                 | None \<Rightarrow> Inl (FileNotFound filePath absWorkspaceDir))))"

text \<open>\<open>resolvePackagePath\<close>; \<open>filepath.ToSlash\<close> is the identity where the separator
  is \<open>/\<close>.\<close>

definition resolvePackagePath :: "world \<Rightarrow> string \<Rightarrow> string \<Rightarrow> error + string" where
  "resolvePackagePath w pkgPath workspaceDir =
     (if HasPrefix pkgPath ''./'' \<or> HasPrefix pkgPath ''../'' then
        (case resolveFilePath w pkgPath workspaceDir of
           Inl err \<Rightarrow> Inl (ResolveRelativePackageFailed err)
         | Inr absPath \<Rightarrow> Inr absPath)
      else Inr pkgPath)"

text \<open>The node that \<open>findSymbol\<close> returns.\<close>

datatype symbol = FuncSymbol funcDecl | TypeSymbol typeSpec | ValueSymbol valueSpec

fun findSymbol_specs :: "spec list \<Rightarrow> string \<Rightarrow> int \<Rightarrow> symbol option" where
  "findSymbol_specs [] symbolName lineNumber = None"
| "findSymbol_specs (TypeSpec s # specs) symbolName lineNumber =
     (if (symbolName \<noteq> [] \<and> ts_name s = symbolName)
         \<or> (lineNumber > 0 \<and> lineNumber \<ge> ts_line s \<and> lineNumber \<le> ts_endLine s)
      then Some (TypeSymbol s)
      else findSymbol_specs specs symbolName lineNumber)"
| "findSymbol_specs (ValueSpec s # specs) symbolName lineNumber =
     (if list_ex (\<lambda>name. (symbolName \<noteq> [] \<and> name = symbolName)
                     \<or> (lineNumber > 0 \<and> lineNumber \<ge> vs_line s \<and> lineNumber \<le> vs_endLine s))
           (vs_names s)
      then Some (ValueSymbol s)
      else findSymbol_specs specs symbolName lineNumber)"
| "findSymbol_specs (ImportSpec i # specs) symbolName lineNumber =
     findSymbol_specs specs symbolName lineNumber"

fun findSymbol :: "decl list \<Rightarrow> string \<Rightarrow> int \<Rightarrow> symbol option" where
  "findSymbol [] symbolName lineNumber = None"
| "findSymbol (FuncDecl d # decls) symbolName lineNumber =
     (if (symbolName \<noteq> [] \<and> fn_name d = symbolName)
         \<or> (lineNumber > 0 \<and> lineNumber \<ge> fn_line d \<and> lineNumber \<le> fn_endLine d)
      then Some (FuncSymbol d)
      else findSymbol decls symbolName lineNumber)"
| "findSymbol (GenDecl d # decls) symbolName lineNumber =
     (case findSymbol_specs (gd_specs d) symbolName lineNumber of
        Some s \<Rightarrow> Some s
      | None \<Rightarrow> findSymbol decls symbolName lineNumber)"
| "findSymbol (BadDecl # decls) symbolName lineNumber =
     findSymbol decls symbolName lineNumber"

text \<open>
  The search of \<open>formatSymbolWithContext\<close> for the \<open>GenDecl\<close> that holds a
  specification: \<open>spec == n\<close> compares pointers.
\<close>

definition parentGenDecl_of :: "decl list \<Rightarrow> (spec \<Rightarrow> bool) \<Rightarrow> genDecl option" where
  "parentGenDecl_of decls same =
     find (\<lambda>g. list_ex same (gd_specs g))
       (concat (map (\<lambda>d. case d of GenDecl g \<Rightarrow> [g] | _ \<Rightarrow> []) decls))"

definition formatSymbolWithContext ::
  "world \<Rightarrow> (string list \<Rightarrow> string list) \<Rightarrow> fileCache \<Rightarrow> string \<Rightarrow> symbol \<Rightarrow> ast_file
     \<Rightarrow> string option \<times> fileCache" where
  "formatSymbolWithContext w iter cache workspaceDir node file =
     (case node of
        FuncSymbol n \<Rightarrow>
          (case formatFunction w iter cache n True True workspaceDir of
             (text, cache') \<Rightarrow> (Some text, cache'))
      | TypeSymbol n \<Rightarrow>
          (case formatType w iter cache n True True True
                  (parentGenDecl_of (file_decls file)
                     (\<lambda>s. case s of TypeSpec t \<Rightarrow> ts_ptr t = ts_ptr n | _ \<Rightarrow> False))
                  workspaceDir of
             (text, cache') \<Rightarrow> (Some text, cache'))
      | ValueSymbol n \<Rightarrow>
          formatVariable w iter cache n True True
            (parentGenDecl_of (file_decls file)
               (\<lambda>s. case s of ValueSpec v \<Rightarrow> vs_ptr v = vs_ptr n | _ \<Rightarrow> False))
            workspaceDir)"

text \<open>
  A panic of a formatter, which ends the call without a result, is the value
  \<open>Inl (RuntimePanic ...)\<close>.
\<close>

definition finish :: "string \<Rightarrow> string option \<times> fileCache \<Rightarrow> (error + string) \<times> fileCache" where
  "finish prefix r =
     (case r of
        (None, cache) \<Rightarrow> (Inl (RuntimePanic ''index out of range [0] with length 0''), cache)
      | (Some text, cache) \<Rightarrow> (Inr (prefix @ text), cache))"

text \<open>The search of \<open>Inspect\<close> for a symbol in the files of a package.\<close>

fun findSymbol_files :: "ast_file list \<Rightarrow> string \<Rightarrow> (symbol \<times> ast_file) option" where
  "findSymbol_files [] symbolName = None"
| "findSymbol_files (file # rest) symbolName =
     (case findSymbol (file_decls file) symbolName 0 of
        Some s \<Rightarrow> Some (s, file)
      | None \<Rightarrow> findSymbol_files rest symbolName)"

text \<open>
  \<open>Inspect\<close>. \<open>parser.ParseFile(fset, resolvedPath, nil, parser.ParseComments)\<close> reads
  the file itself; a file that cannot be read gives no tree and an error that is not a
  list of syntax errors.
\<close>

definition Inspect ::
  "world \<Rightarrow> (string list \<Rightarrow> string list) \<Rightarrow> fileCache \<Rightarrow> string \<Rightarrow> int \<Rightarrow> string \<Rightarrow> bool
     \<Rightarrow> string \<Rightarrow> (error + string) \<times> fileCache" where
  "Inspect w iter cache path lineNumber symbolName includePrivate workspaceDir =
     (if workspaceDir = [] then (Inl WorkspaceDirRequired, cache)
      else if \<not> filepath_IsAbs workspaceDir then
        (Inl (WorkspaceDirNotAbsolute workspaceDir), cache)
      else if HasSuffix path ''.go'' then
        (case resolveFilePath w path workspaceDir of
           Inl err \<Rightarrow> (Inl (ResolveFilePathFailed err), cache)
         | Inr resolvedPath \<Rightarrow>
             (case (case os_ReadFile w resolvedPath of
                      Inl err \<Rightarrow> (None, OtherParseError (error_text err))
                    | Inr src \<Rightarrow> parser_ParseFile w resolvedPath src) of
                (file, perr) \<Rightarrow>
                  (case perr of
                     OtherParseError m \<Rightarrow> (Inl (CacheParseFailed resolvedPath m), cache)
                   | _ \<Rightarrow>
                     (case file of
                        None \<Rightarrow> (Inl (CacheNoAST resolvedPath), cache)
                      | Some tree \<Rightarrow>
                          (let syntaxErrorMsg =
                                 (case perr of
                                    SyntaxErrors m \<Rightarrow>
                                      ''WARNING: Syntax errors found, analysis may be incomplete:''
                                        @ NL @ m @ NL @ NL
                                  | _ \<Rightarrow> [])
                           in
                             if lineNumber = 0 \<and> symbolName = [] then
                               finish syntaxErrorMsg
                                 (formatFile w iter cache tree includePrivate True workspaceDir)
                             else
                               (case findSymbol (file_decls tree) symbolName lineNumber of
                                  Some symbol \<Rightarrow>
                                    finish syntaxErrorMsg
                                      (formatSymbolWithContext w iter cache workspaceDir symbol
                                         tree)
                                | None \<Rightarrow>
                                    (if symbolName \<noteq> []
                                     then (Inl (SymbolNotInFile symbolName), cache)
                                     else (Inl (NoSymbolAtLine lineNumber), cache))))))))
      else
        (case resolvePackagePath w path workspaceDir of
           Inl err \<Rightarrow> (Inl (ResolvePackagePathFailed err), cache)
         | Inr resolvedPkgPath \<Rightarrow>
             (case packages_Load w workspaceDir resolvedPkgPath of
                Inl err \<Rightarrow> (Inl (LoadPackageFailed resolvedPkgPath err), cache)
              | Inr [] \<Rightarrow> (Inl (NoPackagesFound resolvedPkgPath), cache)
              | Inr (pkg # others) \<Rightarrow>
                  (if pkg_Errors pkg \<noteq> [] then (Inl (PackageHasErrors (pkg_Errors pkg)), cache)
                   else if symbolName = [] then
                     finish [] (formatPackage w iter cache pkg includePrivate workspaceDir)
                   else
                     (case findSymbol_files (pkg_Syntax pkg) symbolName of
                        Some (symbol, file) \<Rightarrow>
                          finish []
                            (formatSymbolWithContext w iter cache workspaceDir symbol file)
                      | None \<Rightarrow> (Inl (SymbolNotInPackage symbolName), cache))))))"

section \<open>The claims' vocabulary\<close>

text \<open>
  The identifier characters of the claim: the ASCII letters, the digits and the underscore.
\<close>

definition identifier_chars :: "char set" where
  "identifier_chars = set ''abcdefghijklmnopqrstuvwxyzABCDEFGHIJKLMNOPQRSTUVWXYZ0123456789_''"

text \<open>
  The boundary rule in the claim's words: the token occurs in the line at byte offset \<open>j\<close>,
  the byte before the occurrence (if any) and the byte after it (if any) are not identifier
  characters.
\<close>

definition boundary_occurrence :: "string \<Rightarrow> string \<Rightarrow> nat \<Rightarrow> bool" where
  "boundary_occurrence line token j \<longleftrightarrow>
     j + length token \<le> length line \<and>
     (\<forall>k < length token. line ! (j + k) = token ! k) \<and>
     (0 < j \<longrightarrow> line ! (j - 1) \<notin> identifier_chars) \<and>
     (j + length token < length line \<longrightarrow> line ! (j + length token) \<notin> identifier_chars)"

text \<open>
  The cache's entry for a path is valid: there is one, the file's modification time can
  be read and is not strictly after the time recorded in the entry.
\<close>

definition entry_valid :: "world \<Rightarrow> fileCache \<Rightarrow> string \<Rightarrow> bool" where
  "entry_valid w cache p \<longleftrightarrow>
     (\<exists>cached t. files cache p = Some cached \<and> os_Stat w p = StatOk t
        \<and> \<not> t > cf_modTime cached)"

text \<open>
  The entries of a cache are objects that were allocated before: their identities are
  below the allocation count.
\<close>

definition cache_wf :: "fileCache \<Rightarrow> bool" where
  "cache_wf cache \<longleftrightarrow> (\<forall>p c. files cache p = Some c \<longrightarrow> cf_ref c < allocated cache)"

text \<open>
  The addresses of the nodes of a tree, in the order of the walk. In a tree made by the
  parser every node is an object of its own: the addresses are distinct.
\<close>

function ptrs :: "node \<Rightarrow> nat list" where
  "ptrs n = ptr n # concat (map ptrs (children n))"
  by pat_completeness auto
termination
  by (relation "measure size") (auto simp: size_children)

declare ptrs.simps [simp del]

text \<open>
  The declarations that a whole-file inspection shows, as the texts written for them, in
  source order: a function or a type when private declarations are included or its name is
  exported, a variable or constant specification when private declarations are included or
  at least one of its names is exported.
\<close>

definition shown_specs :: "world \<Rightarrow> bool \<Rightarrow> genDecl \<Rightarrow> spec list \<Rightarrow> string list" where
  "shown_specs w includePrivate g specs =
     concat (map (\<lambda>s. case s of
         ImportSpec i \<Rightarrow> []
       | TypeSpec t \<Rightarrow>
           if includePrivate \<or> IsExported w (ts_name t) then [formatType_code w t (Some g)]
           else []
       | ValueSpec v \<Rightarrow>
           if includePrivate \<or> (\<exists>name \<in> set (vs_names v). IsExported w name)
           then [formatVariable_code w v (Some g)] else []) specs)"

definition shown_decls :: "world \<Rightarrow> bool \<Rightarrow> decl list \<Rightarrow> string list" where
  "shown_decls w includePrivate decls =
     concat (map (\<lambda>d. case d of
         FuncDecl f \<Rightarrow>
           if includePrivate \<or> IsExported w (fn_name f) then [formatFunction_code w f] else []
       | GenDecl g \<Rightarrow> shown_specs w includePrivate g (gd_specs g)
       | BadDecl \<Rightarrow> []) decls)"

text \<open>Writing texts one after the other, each after a separator.\<close>

definition write_separated :: "writer \<Rightarrow> string list \<Rightarrow> writer" where
  "write_separated b texts = foldl (\<lambda>b text. WriteString text (addSeparator b)) b texts"


section \<open>Vocabulary of the claims on sections\<close>

text \<open>
  A request for a whole file (a path that ends in \<open>.go\<close>, with no line and no symbol) or
  for a whole package (any other path, with no symbol). Every other request asks for one
  declaration.
\<close>

definition whole_request :: "string \<Rightarrow> int \<Rightarrow> string \<Rightarrow> bool" where
  "whole_request path lineNumber symbolName \<longleftrightarrow>
     (if HasSuffix path ''.go'' then lineNumber = 0 \<and> symbolName = [] else symbolName = [])"

text \<open>
  The declaration that \<open>Inspect\<close> formats for a request that asks for one: the steps of
  \<open>Inspect\<close> up to its call of \<open>formatSymbolWithContext\<close>, with the warning on syntax
  errors that goes before the text, the declaration found and the file that holds it
  (lemma \<open>Inspect_locate\<close> below).
\<close>

definition locate ::
  "world \<Rightarrow> string \<Rightarrow> int \<Rightarrow> string \<Rightarrow> string \<Rightarrow> error + (string \<times> symbol \<times> ast_file)" where
  "locate w path lineNumber symbolName workspaceDir =
     (if workspaceDir = [] then Inl WorkspaceDirRequired
      else if \<not> filepath_IsAbs workspaceDir then Inl (WorkspaceDirNotAbsolute workspaceDir)
      else if HasSuffix path ''.go'' then
        (case resolveFilePath w path workspaceDir of
           Inl err \<Rightarrow> Inl (ResolveFilePathFailed err)
         | Inr resolvedPath \<Rightarrow>
             (case (case os_ReadFile w resolvedPath of
                      Inl err \<Rightarrow> (None, OtherParseError (error_text err))
                    | Inr src \<Rightarrow> parser_ParseFile w resolvedPath src) of
                (file, perr) \<Rightarrow>
                  (case perr of
                     OtherParseError m \<Rightarrow> Inl (CacheParseFailed resolvedPath m)
                   | _ \<Rightarrow>
                     (case file of
                        None \<Rightarrow> Inl (CacheNoAST resolvedPath)
                      | Some tree \<Rightarrow>
                          (case findSymbol (file_decls tree) symbolName lineNumber of
                             Some symbol \<Rightarrow>
                               Inr (case perr of
                                      SyntaxErrors m \<Rightarrow>
                                        ''WARNING: Syntax errors found, analysis may be incomplete:''
                                          @ NL @ m @ NL @ NL
                                    | _ \<Rightarrow> [],
                                    symbol, tree)
                           | None \<Rightarrow>
                               (if symbolName \<noteq> [] then Inl (SymbolNotInFile symbolName)
                                else Inl (NoSymbolAtLine lineNumber)))))))
      else
        (case resolvePackagePath w path workspaceDir of
           Inl err \<Rightarrow> Inl (ResolvePackagePathFailed err)
         | Inr resolvedPkgPath \<Rightarrow>
             (case packages_Load w workspaceDir resolvedPkgPath of
                Inl err \<Rightarrow> Inl (LoadPackageFailed resolvedPkgPath err)
              | Inr [] \<Rightarrow> Inl (NoPackagesFound resolvedPkgPath)
              | Inr (pkg # others) \<Rightarrow>
                  (if pkg_Errors pkg \<noteq> [] then Inl (PackageHasErrors (pkg_Errors pkg))
                   else
                     (case findSymbol_files (pkg_Syntax pkg) symbolName of
                        Some (symbol, file) \<Rightarrow> Inr ([], symbol, file)
                      | None \<Rightarrow> Inl (SymbolNotInPackage symbolName))))))"

text \<open>
  The \<open>GenDecl\<close> that \<open>formatSymbolWithContext\<close> passes with a type or a variable: the
  first one of the file that holds the specification.
\<close>

definition parent_of_type :: "ast_file \<Rightarrow> typeSpec \<Rightarrow> genDecl option" where
  "parent_of_type file t =
     parentGenDecl_of (file_decls file)
       (\<lambda>s. case s of TypeSpec t' \<Rightarrow> ts_ptr t' = ts_ptr t | _ \<Rightarrow> False)"

definition parent_of_value :: "ast_file \<Rightarrow> valueSpec \<Rightarrow> genDecl option" where
  "parent_of_value file v =
     parentGenDecl_of (file_decls file)
       (\<lambda>s. case s of ValueSpec v' \<Rightarrow> vs_ptr v' = vs_ptr v | _ \<Rightarrow> False)"

text \<open>
  The methods that \<open>formatType\<close> lists after the code of a type, each up to its code, and
  the cache after the file of the type was looked up; nothing when the file does not parse.
\<close>

definition methods_section :: "world \<Rightarrow> fileCache \<Rightarrow> typeSpec \<Rightarrow> string \<times> fileCache" where
  "methods_section w cache t =
     (case GetOrParseFile w cache (ts_filename t) of
        (Inl err, cache1) \<Rightarrow> ([], cache1)
      | (Inr cachedFile, cache1) \<Rightarrow>
          (concat (map (\<lambda>m. NL @ NL @ formatFunction_code w m)
                     (methods_of (ts_name t) (file_decls (cf_ast cachedFile)))),
           cache1))"

text \<open>
  The \<open>Scope:\<close> section that \<open>formatVariable\<close> writes after the code when
  \<open>includeScope\<close> is set, after a line feed; \<open>None\<close> when \<open>formatScope\<close> panics.
\<close>

definition scope_section ::
  "world \<Rightarrow> fileCache \<Rightarrow> valueSpec \<Rightarrow> bool \<Rightarrow> string option \<times> fileCache" where
  "scope_section w cache v includeScope =
     (if includeScope
      then (map_option (\<lambda>text. NL @ text)
              (fst (formatScope w cache (vs_filename v) (vs_line v))),
            snd (formatScope w cache (vs_filename v) (vs_line v)))
      else (Some [], cache))"

text \<open>
  One \<open>References:\<close> section for each of the names of a specification, each after an
  empty line, the cache handed from one to the next.
\<close>

fun references_of_names ::
  "world \<Rightarrow> (string list \<Rightarrow> string list) \<Rightarrow> fileCache \<Rightarrow> string \<Rightarrow> int \<Rightarrow> string list
     \<Rightarrow> string \<times> fileCache" where
  "references_of_names w iter cache filePath lineNumber [] = ([], cache)"
| "references_of_names w iter cache filePath lineNumber (name # names) =
     (case formatReferences w iter cache filePath lineNumber name of
        (text, cache1) \<Rightarrow>
          (case references_of_names w iter cache1 filePath lineNumber names of
             (rest, cache2) \<Rightarrow> (NL @ NL @ text @ rest, cache2)))"

text \<open>The sections of a symbol for which the external tool failed with \<open>err\<close>.\<close>

definition references_failed :: "error \<Rightarrow> string" where
  "references_failed err =
     ''References:'' @ NL @ ''gopls references failed: '' @ error_text err @ NL
       @ ''No references found'' @ NL"

definition implementers_failed :: "error \<Rightarrow> string" where
  "implementers_failed err =
     ''Implementers:'' @ NL @ ''gopls implementation failed: '' @ error_text err @ NL"

definition call_hierarchy_failed :: "error \<Rightarrow> string" where
  "call_hierarchy_failed err =
     ''Call Hierarchy:'' @ NL @ ''gopls call_hierarchy failed: '' @ error_text err @ NL"

text \<open>
  The references that the tool reports for a symbol fall into at most one function scope
  and at most one file at package scope, whatever the cache holds; the implementers that
  it reports lie in at most one file.
\<close>

definition single_reference_group :: "world \<Rightarrow> string \<Rightarrow> int \<Rightarrow> string \<Rightarrow> bool" where
  "single_reference_group w filePath lineNumber symbolName \<longleftrightarrow>
     (\<forall>cache position out fs ps c.
        fst (createGoplsPosition w filePath lineNumber symbolName) = Inr position
          \<and> executeGoplsCommand w [''references'', position] = Inr out
          \<and> foldl (group_reference w) ([], [], cache) (split_lines out) = (fs, ps, c)
        \<longrightarrow> length fs \<le> 1 \<and> length ps \<le> 1)"

definition single_implementer_file :: "world \<Rightarrow> string \<Rightarrow> int \<Rightarrow> string \<Rightarrow> bool" where
  "single_implementer_file w filePath lineNumber symbolName \<longleftrightarrow>
     (\<forall>position out.
        fst (createGoplsPosition w filePath lineNumber symbolName) = Inr position
          \<and> executeGoplsCommand w [''implementation'', position] = Inr out
        \<longrightarrow> length (foldl collect_implementer [] (split_lines out)) \<le> 1)"

text \<open>
  A declaration all of whose sections have at most one group: the references of a
  function, the implementers and the references of a type, the references of every name
  of a variable or constant specification.
\<close>

definition single_groups :: "world \<Rightarrow> symbol \<Rightarrow> bool" where
  "single_groups w node \<longleftrightarrow>
     (case node of
        FuncSymbol fn \<Rightarrow>
          single_reference_group w (fn_filename fn) (fn_line fn) (fn_name fn)
      | TypeSymbol t \<Rightarrow>
          single_implementer_file w (ts_filename t) (ts_line t) (ts_name t)
          \<and> single_reference_group w (ts_filename t) (ts_line t) (ts_name t)
      | ValueSymbol v \<Rightarrow>
          (\<forall>name \<in> set (vs_names v).
             single_reference_group w (vs_filename v) (vs_line v) name))"

section \<open>Example environments\<close>

text \<open>
  A disk with one Go file, \<open>/w/a.go\<close>, with a given modification time and content; the
  path \<open>/w/./a.go\<close> names the same file, and \<open>filepath.Abs\<close> cleans it. The parser
  stands for \<open>go/parser\<close> on a file that only has a package clause.
\<close>

definition toy_clean :: "string \<Rightarrow> string" where
  "toy_clean p = (if p = ''/w/./a.go'' then ''/w/a.go'' else p)"

definition toy_parse :: "string \<Rightarrow> string \<Rightarrow> ast_file option \<times> parse_error" where
  "toy_parse path src =
     (Some \<lparr>file_pkg = drop 8 src, file_pos = Some path, file_doc = None, file_decls = []\<rparr>,
      NoParseError)"

definition disk_world :: "int \<Rightarrow> string \<Rightarrow> world" where
  "disk_world mtime content =
     \<lparr>os_Stat = (\<lambda>p. if toy_clean p = ''/w/a.go'' then StatOk mtime
                     else StatNotExist ''no such file or directory''),
      os_ReadFile = (\<lambda>p. if toy_clean p = ''/w/a.go'' then Inr content
                         else Inl (OsError ''no such file or directory'')),
      filepath_Abs = (\<lambda>p. Inr (toy_clean p)),
      filepath_Rel = (\<lambda>base target. Inr (drop (Suc (length base)) target)),
      filepath_Join = (\<lambda>dir name. dir @ ''/'' @ name),
      filepath_Dir = (\<lambda>p. ''/w''),
      run_gopls = (\<lambda>args. ([], Some ''exit status 2'')),
      parser_ParseFile = toy_parse,
      packages_Load = (\<lambda>dir pattern. Inr []),
      unicode_Upper = (\<lambda>r. False)\<rparr>"

text \<open>
  The body of \<open>func f(x int) {\<close> (line 1) \<open>if x > 0 {\<close> (line 2) \<open>println(x)\<close> (line 3)
  \<open>}\<close> (line 4) \<open>}\<close> (line 5): the block of the function, the \<open>if\<close> statement with its
  condition and its block, and the call in it.
\<close>

definition example_body :: node where
  "example_body =
     BlockStmt 1 1 5
       [IfStmt 2 2 4 [OtherNode 3 2 2 []]
          (BlockStmt 4 2 4 [OtherNode 5 3 3 []])
          None]"

text \<open>
  An environment with the files of \<open>disk\<close> (path and content, all written at time 5),
  absolute and clean paths only, a parser that gives the tree listed for a path in
  \<open>trees\<close>, and the external tool \<open>gopls\<close>.
\<close>

definition example_world ::
  "(string \<times> string) list \<Rightarrow> (string \<times> ast_file) list
     \<Rightarrow> (string list \<Rightarrow> string \<times> string option) \<Rightarrow> world" where
  "example_world disk trees gopls =
     \<lparr>os_Stat = (\<lambda>p. case map_of disk p of
                       Some content \<Rightarrow> StatOk 5
                     | None \<Rightarrow> StatNotExist ''no such file or directory''),
      os_ReadFile = (\<lambda>p. case map_of disk p of
                           Some content \<Rightarrow> Inr content
                         | None \<Rightarrow> Inl (OsError ''no such file or directory'')),
      filepath_Abs = Inr,
      filepath_Rel = (\<lambda>base target.
                        if HasPrefix target (base @ ''/'')
                        then Inr (drop (Suc (length base)) target)
                        else Inr (''..'' @ target)),
      filepath_Join = (\<lambda>dir name. dir @ ''/'' @ name),
      filepath_Dir = (\<lambda>p. ''/w''),
      run_gopls = gopls,
      parser_ParseFile = (\<lambda>p src. (map_of trees p, NoParseError)),
      packages_Load = (\<lambda>dir pattern. Inr []),
      unicode_Upper = (\<lambda>r. False)\<rparr>"

text \<open>
  The file \<open>/w/a.go\<close> of the examples and its tree:
  \<^verbatim>\<open>package a\<close> (line 1), \<^verbatim>\<open>func Exported() {\<close> (line 3), \<^verbatim>\<open>}\<close> (line 4),
  \<^verbatim>\<open>func unexported() {\<close> (line 6), \<^verbatim>\<open>}\<close> (line 7),
  \<^verbatim>\<open>var hidden, Shown = 1, 2\<close> (line 9).
\<close>

definition a_go_text :: string where
  "a_go_text =
     ''package a'' @ NL @ NL @
     ''func Exported() {'' @ NL @ ''}'' @ NL @ NL @
     ''func unexported() {'' @ NL @ ''}'' @ NL @ NL @
     ''var hidden, Shown = 1, 2'' @ NL"

definition fn_Exported :: funcDecl where
  "fn_Exported =
     \<lparr>fn_name = ''Exported'', fn_doc = None, fn_recv = None, fn_filename = ''/w/a.go'',
      fn_line = 3, fn_endLine = 4,
      fn_body = Some \<lparr>body_preLine = 3, body_endLine = 4, body_stmt = BlockStmt 1 3 4 []\<rparr>\<rparr>"

definition fn_unexported :: funcDecl where
  "fn_unexported =
     \<lparr>fn_name = ''unexported'', fn_doc = None, fn_recv = None, fn_filename = ''/w/a.go'',
      fn_line = 6, fn_endLine = 7,
      fn_body = Some \<lparr>body_preLine = 6, body_endLine = 7, body_stmt = BlockStmt 2 6 7 []\<rparr>\<rparr>"

definition var_hidden_Shown :: genDecl where
  "var_hidden_Shown =
     \<lparr>gd_tok = VAR_tok, gd_doc = None,
      gd_specs = [ValueSpec \<lparr>vs_ptr = 3, vs_names = [''hidden'', ''Shown''], vs_doc = None,
                             vs_filename = ''/w/a.go'', vs_line = 9, vs_endLine = 9\<rparr>]\<rparr>"

definition a_go_tree :: ast_file where
  "a_go_tree =
     \<lparr>file_pkg = ''a'', file_pos = Some ''/w/a.go'', file_doc = None,
      file_decls = [FuncDecl fn_Exported, FuncDecl fn_unexported, GenDecl var_hidden_Shown]\<rparr>"

text \<open>An external tool that fails on every call.\<close>

definition gopls_down :: "string list \<Rightarrow> string \<times> string option" where
  "gopls_down args = ([], Some ''exit status 2'')"

text \<open>The environment of the examples: the file \<open>/w/a.go\<close>, and a tool that fails.\<close>

definition world_gopls_down :: world where
  "world_gopls_down =
     example_world [(''/w/a.go'', a_go_text)] [(''/w/a.go'', a_go_tree)] gopls_down"




section \<open>Properties of the position resolver\<close>

lemma isIdentifierChar_iff: "isIdentifierChar c \<longleftrightarrow> c \<in> identifier_chars"
proof (cases c)
  case (Char b0 b1 b2 b3 b4 b5 b6 b7)
  show ?thesis
    unfolding Char isIdentifierChar_def identifier_chars_def Let_def
    by (cases b0; cases b1; cases b2; cases b3; cases b4; cases b5; cases b6; cases b7; simp)
qed

lemma slice_eq_iff:
  "j + length s \<le> length L \<Longrightarrow>
   take (length s) (drop j L) = s \<longleftrightarrow> (\<forall>k < length s. L ! (j + k) = s ! k)"
  by (auto simp: list_eq_iff_nth_eq)

lemma scan_test_iff:
  "int j \<le> int (length L) - int (length s) \<and> take (length s) (drop j L) = s
     \<and> isWordBoundary L j s \<longleftrightarrow> boundary_occurrence L s j"
proof (cases "j + length s \<le> length L")
  case True
  then show ?thesis
    by (auto simp: boundary_occurrence_def isWordBoundary_def Let_def isIdentifierChar_iff
        slice_eq_iff)
next
  case False
  then show ?thesis
    by (auto simp: boundary_occurrence_def)
qed

lemma scanFrom_Some:
  "scanFrom L s i = Some k \<Longrightarrow>
   i \<le> k \<and> boundary_occurrence L s k \<and> (\<forall>j. i \<le> j \<and> j < k \<longrightarrow> \<not> boundary_occurrence L s j)"
proof (induction L s i rule: scanFrom.induct)
  case (1 L s i)
  show ?case
  proof (cases "boundary_occurrence L s i")
    case True
    then have "scanFrom L s i = Some i"
      using scan_test_iff [of i L s] by (subst scanFrom.simps) auto
    with "1.prems" True show ?thesis by auto
  next
    case False
    have bound: "int i \<le> int (length L) - int (length s)"
      using "1.prems" by (subst (asm) scanFrom.simps) (auto split: if_splits)
    have test: "\<not> (take (length s) (drop i L) = s \<and> isWordBoundary L i s)"
      using False bound scan_test_iff [of i L s] by blast
    have "scanFrom L s (Suc i) = Some k"
      using "1.prems" bound test by (subst (asm) scanFrom.simps) (auto split: if_splits)
    from "1.IH" [OF bound test this] False show ?thesis
      by (auto simp: le_Suc_eq Suc_le_eq) (metis le_neq_implies_less)
  qed
qed

lemma scanFrom_None:
  "scanFrom L s i = None \<Longrightarrow> i \<le> j \<Longrightarrow> \<not> boundary_occurrence L s j"
proof (induction L s i rule: scanFrom.induct)
  case (1 L s i)
  show ?case
  proof (cases "int i \<le> int (length L) - int (length s)")
    case True
    have test: "\<not> (take (length s) (drop i L) = s \<and> isWordBoundary L i s)"
      using "1.prems"(1) True by (subst (asm) scanFrom.simps) (auto split: if_splits)
    have nxt: "scanFrom L s (Suc i) = None"
      using "1.prems"(1) True test by (subst (asm) scanFrom.simps) (auto split: if_splits)
    show ?thesis
    proof (cases "j = i")
      case True
      with test scan_test_iff [of i L s] show ?thesis by blast
    next
      case False
      with "1.prems"(2) have "Suc i \<le> j" by simp
      from "1.IH" [OF True test nxt this] show ?thesis .
    qed
  next
    case False
    with "1.prems"(2) have "\<not> j + length s \<le> length L" by linarith
    then show ?thesis by (simp add: boundary_occurrence_def)
  qed
qed

text \<open>
  Claim C1. On every valid line of a file and for every token, the resolver returns the
  1-based column of the leftmost occurrence of the token whose neighbouring bytes are not
  identifier characters, and fails with the position-not-found error exactly when the line
  has no such occurrence.
\<close>

theorem position_resolver_leftmost_boundary:
  assumes "0 < lineNumber" and "lineNumber \<le> int (length (split_lines text))"
  shows "findSymbolColumnPosition (Inr text) lineNumber symbolName =
     (let line = split_lines text ! nat (lineNumber - 1) in
        if \<exists>j. boundary_occurrence line symbolName j
        then Inr (int (LEAST j. boundary_occurrence line symbolName j) + 1)
        else Inl (PositionNotFound symbolName lineNumber))"
proof -
  define line where "line = split_lines text ! nat (lineNumber - 1)"
  show ?thesis
  proof (cases "scanFrom line symbolName 0")
    case None
    then have "\<not> (\<exists>j. boundary_occurrence line symbolName j)"
      using scanFrom_None [of line symbolName 0] by blast
    with None assms show ?thesis
      by (simp add: findSymbolColumnPosition_def Let_def line_def)
  next
    case (Some k)
    from scanFrom_Some [OF Some]
    have k: "boundary_occurrence line symbolName k"
      and least: "\<forall>j<k. \<not> boundary_occurrence line symbolName j" by auto
    have "(LEAST j. boundary_occurrence line symbolName j) = k"
      using k least by (intro Least_equality) (auto simp: not_less [symmetric])
    with Some k assms show ?thesis
      by (auto simp: findSymbolColumnPosition_def Let_def line_def)
  qed
qed

text \<open>
  The two instances the claim names: \<open>MyStruct\<close> in \<open>type MyStruct struct {\<close> is at
  column 6, and \<open>Per\<close> has no boundary occurrence in \<open>Person\<close>.
\<close>

theorem position_resolver_examples:
  "findSymbolColumnPosition (Inr ''type MyStruct struct {'') 1 ''MyStruct'' = Inr 6
   \<and> (\<exists>j. boundary_occurrence ''type MyStruct struct {'' ''MyStruct'' j)
   \<and> (LEAST j. boundary_occurrence ''type MyStruct struct {'' ''MyStruct'' j) = 5
   \<and> findSymbolColumnPosition (Inr ''Person'') 1 ''Per'' = Inl (PositionNotFound ''Per'' 1)
   \<and> \<not> (\<exists>j. boundary_occurrence ''Person'' ''Per'' j)"
proof -
  have len1: "(1::int) \<le> int (length (split_lines ''type MyStruct struct {''))"
    by (simp add: split_lines_def)
  have len2: "(1::int) \<le> int (length (split_lines ''Person''))"
    by (simp add: split_lines_def)
  have l1: "split_lines ''type MyStruct struct {'' ! nat (1 - 1) = ''type MyStruct struct {''"
    by (simp add: split_lines_def)
  have l2: "split_lines ''Person'' ! nat (1 - 1) = ''Person''"
    by (simp add: split_lines_def)
  have e1: "findSymbolColumnPosition (Inr ''type MyStruct struct {'') 1 ''MyStruct'' = Inr 6"
    by code_simp
  have e2: "findSymbolColumnPosition (Inr ''Person'') 1 ''Per'' = Inl (PositionNotFound ''Per'' 1)"
    by code_simp
  note t1 = position_resolver_leftmost_boundary [OF _ len1, of "''MyStruct''", simplified l1 e1 Let_def]
  note t2 = position_resolver_leftmost_boundary [OF _ len2, of "''Per''", simplified l2 e2 Let_def]
  from t1 have a: "(\<exists>j. boundary_occurrence ''type MyStruct struct {'' ''MyStruct'' j)
      \<and> (LEAST j. boundary_occurrence ''type MyStruct struct {'' ''MyStruct'' j) = 5"
    by (auto split: if_splits)
  from t2 have b: "\<not> (\<exists>j. boundary_occurrence ''Person'' ''Per'' j)"
    by (auto split: if_splits)
  from a b e1 e2 show ?thesis by blast
qed

section \<open>Properties of Rename\<close>

text \<open>
  Claim C7. A call of \<open>Rename\<close> with a non-empty path, a positive line and a non-empty
  symbol name that is also the new name returns the confirmation message, without error,
  and makes no call to the file system or to the external tool, whatever the environment.
\<close>

theorem Rename_same_name_short_circuits:
  assumes "filePath \<noteq> []" and "0 < lineNumber" and "symbolName \<noteq> []"
    and "newName = symbolName"
  shows "Rename w filePath lineNumber symbolName newName =
     (Inr (''Symbol '' @ [CHR 0x27] @ symbolName @ [CHR 0x27] @ '' already has the desired name''),
      [])"
  using assms by (simp add: Rename_def)

text \<open>The theorem at a call that renames \<open>Server\<close> to \<open>Server\<close>, in any environment.\<close>

theorem Rename_same_name_witness:
  "\<forall>w. Rename w ''main.go'' 12 ''Server'' ''Server'' =
     (Inr ''Symbol 'Server' already has the desired name'', [])"
proof
  fix w
  show "Rename w ''main.go'' 12 ''Server'' ''Server'' =
     (Inr ''Symbol 'Server' already has the desired name'', [])"
    using Rename_same_name_short_circuits [of "''main.go''" 12 "''Server''" "''Server''" w]
    by simp
qed

section \<open>Properties of the parse cache\<close>

lemma GetOrParseFile_valid:
  "files cache p = Some cached \<Longrightarrow> os_Stat w p = StatOk t \<Longrightarrow> \<not> t > cf_modTime cached \<Longrightarrow>
   GetOrParseFile w cache p = (Inr cached, cache)"
  by (simp add: GetOrParseFile_def)

lemma GetOrParseFile_cases:
  "GetOrParseFile w cache p = (r, c') \<Longrightarrow>
     (\<exists>cached t. files cache p = Some cached \<and> os_Stat w p = StatOk t \<and> \<not> t > cf_modTime cached
         \<and> r = Inr cached \<and> c' = cache)
   \<or> (\<not> entry_valid w cache p \<and> (\<exists>e. r = Inl e) \<and> c' = cache)
   \<or> (\<not> entry_valid w cache p \<and>
       (\<exists>src file perr t. os_ReadFile w p = Inr src \<and> parser_ParseFile w p src = (Some file, perr)
         \<and> os_Stat w p = StatOk t
         \<and> r = Inr \<lparr>cf_ref = allocated cache, cf_ast = file, cf_modTime = t, cf_filePath = p\<rparr>
         \<and> c' = cache\<lparr>files := (files cache)(p \<mapsto> \<lparr>cf_ref = allocated cache, cf_ast = file, cf_modTime = t, cf_filePath = p\<rparr>),
                      allocated := Suc (allocated cache)\<rparr>))"
  by (auto simp: GetOrParseFile_def Let_def entry_valid_def
      split: option.splits stat_result.splits sum.splits prod.splits parse_error.splits if_splits)

lemma GetOrParseFile_reparse:
  assumes "\<not> entry_valid w cache p" and "os_ReadFile w p = Inr src"
    and "parser_ParseFile w p src = (Some file, perr)" and "\<forall>m. perr \<noteq> OtherParseError m"
    and "os_Stat w p = StatOk t"
  shows "GetOrParseFile w cache p =
     (Inr \<lparr>cf_ref = allocated cache, cf_ast = file, cf_modTime = t, cf_filePath = p\<rparr>,
      cache\<lparr>files := (files cache)(p \<mapsto>
                \<lparr>cf_ref = allocated cache, cf_ast = file, cf_modTime = t, cf_filePath = p\<rparr>),
            allocated := Suc (allocated cache)\<rparr>)"
  using assms
  by (auto simp: GetOrParseFile_def Let_def entry_valid_def
      split: option.splits stat_result.splits parse_error.splits)

lemma cache_wf_empty: "cache_wf emptyCache"
  by (simp add: cache_wf_def emptyCache_def)

lemma cache_wf_ClearCache: "cache_wf cache \<Longrightarrow> cache_wf (ClearCache cache)"
  by (simp add: cache_wf_def ClearCache_def)

lemma cache_wf_RemoveFile: "cache_wf cache \<Longrightarrow> cache_wf (RemoveFile cache p)"
  by (simp add: cache_wf_def RemoveFile_def)

lemma cache_wf_GetOrParseFile:
  assumes "cache_wf cache"
  shows "cache_wf (snd (GetOrParseFile w cache p))"
proof -
  obtain r c' where rc: "GetOrParseFile w cache p = (r, c')" by (cases "GetOrParseFile w cache p")
  from GetOrParseFile_cases [OF rc] assms show ?thesis
    unfolding rc by (fastforce simp: cache_wf_def less_Suc_eq split: if_splits)
qed

text \<open>
  Claim C2. An entry of the cache is served exactly when the file's modification time can
  be read and is not strictly after the time recorded in the entry, and then the cache is
  left as it is. When the time has advanced and the file can be read and parsed, the call
  stores and returns a newly allocated entry (another object than the old one) with the
  new tree and time. A call that returned an entry is followed, on the unchanged file, by
  calls that return the same entry.
\<close>

theorem cache_entry_served_iff_not_modified_after:
  assumes wf: "cache_wf cache" and ent: "files cache p = Some cached"
  shows
    "(fst (GetOrParseFile w cache p) = Inr cached
        \<longleftrightarrow> (\<exists>t. os_Stat w p = StatOk t \<and> \<not> t > cf_modTime cached))
     \<and> ((\<exists>t. os_Stat w p = StatOk t \<and> \<not> t > cf_modTime cached)
          \<longrightarrow> snd (GetOrParseFile w cache p) = cache)
     \<and> (\<forall>t src file perr.
           os_Stat w p = StatOk t \<and> t > cf_modTime cached \<and> os_ReadFile w p = Inr src
             \<and> parser_ParseFile w p src = (Some file, perr) \<and> (\<forall>m. perr \<noteq> OtherParseError m)
           \<longrightarrow> (let fresh = \<lparr>cf_ref = allocated cache, cf_ast = file, cf_modTime = t,
                                cf_filePath = p\<rparr>
                in GetOrParseFile w cache p =
                     (Inr fresh,
                      cache\<lparr>files := (files cache)(p \<mapsto> fresh),
                            allocated := Suc (allocated cache)\<rparr>)
                   \<and> cf_ref fresh \<noteq> cf_ref cached))
     \<and> (\<forall>x. fst (GetOrParseFile w cache p) = Inr x
           \<longrightarrow> GetOrParseFile w (snd (GetOrParseFile w cache p)) p
                 = (Inr x, snd (GetOrParseFile w cache p)))"
proof -
  obtain r c' where rc: "GetOrParseFile w cache p = (r, c')" by (cases "GetOrParseFile w cache p")
  have ref: "cf_ref cached < allocated cache"
    using wf ent by (auto simp: cache_wf_def)
  have valid_iff: "entry_valid w cache p \<longleftrightarrow> (\<exists>t. os_Stat w p = StatOk t \<and> \<not> t > cf_modTime cached)"
    using ent by (simp add: entry_valid_def)
  have 1: "fst (GetOrParseFile w cache p) = Inr cached
        \<longleftrightarrow> (\<exists>t. os_Stat w p = StatOk t \<and> \<not> t > cf_modTime cached)"
    using GetOrParseFile_cases [OF rc] ent ref valid_iff unfolding rc by auto
  have 2: "(\<exists>t. os_Stat w p = StatOk t \<and> \<not> t > cf_modTime cached)
          \<longrightarrow> snd (GetOrParseFile w cache p) = cache"
    using GetOrParseFile_valid [OF ent] by auto
  have 3: "\<forall>t src file perr.
           os_Stat w p = StatOk t \<and> t > cf_modTime cached \<and> os_ReadFile w p = Inr src
             \<and> parser_ParseFile w p src = (Some file, perr) \<and> (\<forall>m. perr \<noteq> OtherParseError m)
           \<longrightarrow> (let fresh = \<lparr>cf_ref = allocated cache, cf_ast = file, cf_modTime = t,
                                cf_filePath = p\<rparr>
                in GetOrParseFile w cache p =
                     (Inr fresh,
                      cache\<lparr>files := (files cache)(p \<mapsto> fresh),
                            allocated := Suc (allocated cache)\<rparr>)
                   \<and> cf_ref fresh \<noteq> cf_ref cached)"
  proof (intro allI impI)
    fix t src file' perr
    assume h: "os_Stat w p = StatOk t \<and> t > cf_modTime cached \<and> os_ReadFile w p = Inr src
             \<and> parser_ParseFile w p src = (Some file', perr) \<and> (\<forall>m. perr \<noteq> OtherParseError m)"
    then have "\<not> entry_valid w cache p" using valid_iff by auto
    from GetOrParseFile_reparse [OF this] h ref
    show "let fresh = \<lparr>cf_ref = allocated cache, cf_ast = file', cf_modTime = t,
                                cf_filePath = p\<rparr>
                in GetOrParseFile w cache p =
                     (Inr fresh,
                      cache\<lparr>files := (files cache)(p \<mapsto> fresh),
                            allocated := Suc (allocated cache)\<rparr>)
                   \<and> cf_ref fresh \<noteq> cf_ref cached"
      by (simp add: Let_def)
  qed
  have 4: "\<forall>x. fst (GetOrParseFile w cache p) = Inr x
           \<longrightarrow> GetOrParseFile w (snd (GetOrParseFile w cache p)) p
                 = (Inr x, snd (GetOrParseFile w cache p))"
  proof (intro allI impI)
    fix x assume "fst (GetOrParseFile w cache p) = Inr x"
    then have rx: "r = Inr x" using rc by simp
    from GetOrParseFile_cases [OF rc] rx
    have "\<exists>t. files c' p = Some x \<and> os_Stat w p = StatOk t \<and> \<not> t > cf_modTime x"
      by auto
    then show "GetOrParseFile w (snd (GetOrParseFile w cache p)) p
                 = (Inr x, snd (GetOrParseFile w cache p))"
      unfolding rc using GetOrParseFile_valid [of c' p x w] by auto
  qed
  from 1 2 3 4 show ?thesis by blast
qed

lemma first_parse_example:
  "GetOrParseFile (disk_world 5 ''package a'') emptyCache ''/w/a.go'' =
     (Inr \<lparr>cf_ref = 0, cf_ast = \<lparr>file_pkg = ''a'', file_pos = Some ''/w/a.go'', file_doc = None,
                                   file_decls = []\<rparr>,
            cf_modTime = 5, cf_filePath = ''/w/a.go''\<rparr>,
      \<lparr>files = [''/w/a.go'' \<mapsto>
          \<lparr>cf_ref = 0, cf_ast = \<lparr>file_pkg = ''a'', file_pos = Some ''/w/a.go'', file_doc = None,
                                   file_decls = []\<rparr>,
            cf_modTime = 5, cf_filePath = ''/w/a.go''\<rparr>], allocated = 1\<rparr>)"
  by (simp add: GetOrParseFile_def disk_world_def toy_clean_def toy_parse_def emptyCache_def Let_def)

text \<open>
  The theorem at a disk whose file is written at time 5 and rewritten at time 9: the
  second call at time 5 returns the entry of the first, the call at time 9 parses again.
\<close>

theorem cache_entry_served_witness:
  "(let w5 = disk_world 5 ''package a''; w9 = disk_world 9 ''package b'';
        first = GetOrParseFile w5 emptyCache ''/w/a.go'';
        entry = \<lparr>cf_ref = 0, cf_ast = \<lparr>file_pkg = ''a'', file_pos = Some ''/w/a.go'',
                    file_doc = None, file_decls = []\<rparr>, cf_modTime = 5, cf_filePath = ''/w/a.go''\<rparr>;
        fresh = \<lparr>cf_ref = 1, cf_ast = \<lparr>file_pkg = ''b'', file_pos = Some ''/w/a.go'',
                    file_doc = None, file_decls = []\<rparr>, cf_modTime = 9, cf_filePath = ''/w/a.go''\<rparr>
    in fst first = Inr entry
       \<and> cache_wf (snd first)
       \<and> files (snd first) ''/w/a.go'' = Some entry
       \<and> GetOrParseFile w5 (snd first) ''/w/a.go'' = (Inr entry, snd first)
       \<and> GetOrParseFile w9 (snd first) ''/w/a.go''
           = (Inr fresh, (snd first)\<lparr>files := (files (snd first))(''/w/a.go'' \<mapsto> fresh),
                                      allocated := 2\<rparr>))"
proof -
  define w5 where "w5 = disk_world 5 ''package a''"
  define w9 where "w9 = disk_world 9 ''package b''"
  define entry where "entry = \<lparr>cf_ref = 0, cf_ast = \<lparr>file_pkg = ''a'', file_pos = Some ''/w/a.go'',
                    file_doc = None, file_decls = []\<rparr>, cf_modTime = 5, cf_filePath = ''/w/a.go''\<rparr>"
  define c1 where "c1 = \<lparr>files = [''/w/a.go'' \<mapsto> entry], allocated = 1\<rparr>"
  have first: "GetOrParseFile w5 emptyCache ''/w/a.go'' = (Inr entry, c1)"
    unfolding w5_def entry_def c1_def by (rule first_parse_example)
  have wf: "cache_wf c1"
    by (simp add: cache_wf_def c1_def entry_def)
  have ent: "files c1 ''/w/a.go'' = Some entry"
    by (simp add: c1_def)
  note served = cache_entry_served_iff_not_modified_after [OF wf ent]
  have s5: "os_Stat w5 ''/w/a.go'' = StatOk 5" and s9: "os_Stat w9 ''/w/a.go'' = StatOk 9"
    and r9: "os_ReadFile w9 ''/w/a.go'' = Inr ''package b''"
    and p9: "parser_ParseFile w9 ''/w/a.go'' ''package b''
       = (Some \<lparr>file_pkg = ''b'', file_pos = Some ''/w/a.go'', file_doc = None, file_decls = []\<rparr>,
          NoParseError)"
    by (simp_all add: w5_def w9_def disk_world_def toy_clean_def toy_parse_def)
  have again: "GetOrParseFile w5 c1 ''/w/a.go'' = (Inr entry, c1)"
    using served [of w5] s5 by (auto simp: entry_def prod_eq_iff)
  have later: "GetOrParseFile w9 c1 ''/w/a.go''
     = (Inr \<lparr>cf_ref = 1, cf_ast = \<lparr>file_pkg = ''b'', file_pos = Some ''/w/a.go'',
                    file_doc = None, file_decls = []\<rparr>, cf_modTime = 9, cf_filePath = ''/w/a.go''\<rparr>,
        c1\<lparr>files := (files c1)(''/w/a.go'' \<mapsto> \<lparr>cf_ref = 1, cf_ast = \<lparr>file_pkg = ''b'', file_pos = Some ''/w/a.go'',
                    file_doc = None, file_decls = []\<rparr>, cf_modTime = 9, cf_filePath = ''/w/a.go''\<rparr>),
            allocated := 2\<rparr>)"
    using served [of w9] s9 r9 p9 by (simp add: entry_def Let_def c1_def)
  show ?thesis
    using first wf ent again later
    unfolding Let_def w5_def [symmetric] w9_def [symmetric] entry_def [symmetric]
    by simp
qed

text \<open>
  Claim C10. A call that returns an error leaves the cache as it was. When the entry for
  the path is absent or not valid, a failure to read the file, a parser error that is not a
  list of syntax errors, a missing tree, or a failure to read the modification time after
  the parse each end the call with the corresponding error and the unchanged cache.
\<close>

theorem failed_reparse_leaves_cache_unchanged:
  "(\<forall>e. fst (GetOrParseFile w cache p) = Inl e \<longrightarrow> snd (GetOrParseFile w cache p) = cache)
   \<and> (\<not> entry_valid w cache p \<longrightarrow>
        (\<forall>err. os_ReadFile w p = Inl err \<longrightarrow>
           GetOrParseFile w cache p = (Inl (CacheReadFailed p err), cache))
      \<and> (\<forall>src tree m. os_ReadFile w p = Inr src \<and> parser_ParseFile w p src = (tree, OtherParseError m)
           \<longrightarrow> GetOrParseFile w cache p = (Inl (CacheParseFailed p m), cache))
      \<and> (\<forall>src perr. os_ReadFile w p = Inr src \<and> parser_ParseFile w p src = (None, perr)
             \<and> (\<forall>m. perr \<noteq> OtherParseError m)
           \<longrightarrow> GetOrParseFile w cache p = (Inl (CacheNoAST p), cache))
      \<and> (\<forall>src tree perr. os_ReadFile w p = Inr src \<and> parser_ParseFile w p src = (Some tree, perr)
             \<and> (\<forall>m. perr \<noteq> OtherParseError m) \<and> (\<forall>t. os_Stat w p \<noteq> StatOk t)
           \<longrightarrow> (\<exists>m. GetOrParseFile w cache p = (Inl (CacheStatFailed p (OsError m)), cache))))"
proof -
  obtain r c' where rc: "GetOrParseFile w cache p = (r, c')" by (cases "GetOrParseFile w cache p")
  have 1: "\<forall>e. fst (GetOrParseFile w cache p) = Inl e \<longrightarrow> snd (GetOrParseFile w cache p) = cache"
    using GetOrParseFile_cases [OF rc] unfolding rc by auto
  have inv: "\<not> entry_valid w cache p \<Longrightarrow>
     (case files cache p of
           None \<Rightarrow> None
         | Some cached \<Rightarrow>
             (case os_Stat w p of
                StatOk t \<Rightarrow> if \<not> (t > cf_modTime cached) then Some cached else None
              | StatNotExist m \<Rightarrow> None
              | StatFailed m \<Rightarrow> None)) = None"
    by (auto simp: entry_valid_def split: option.splits stat_result.splits)
  have 2: "\<not> entry_valid w cache p \<longrightarrow>
        (\<forall>err. os_ReadFile w p = Inl err \<longrightarrow>
           GetOrParseFile w cache p = (Inl (CacheReadFailed p err), cache))
      \<and> (\<forall>src tree m. os_ReadFile w p = Inr src \<and> parser_ParseFile w p src = (tree, OtherParseError m)
           \<longrightarrow> GetOrParseFile w cache p = (Inl (CacheParseFailed p m), cache))
      \<and> (\<forall>src perr. os_ReadFile w p = Inr src \<and> parser_ParseFile w p src = (None, perr)
             \<and> (\<forall>m. perr \<noteq> OtherParseError m)
           \<longrightarrow> GetOrParseFile w cache p = (Inl (CacheNoAST p), cache))
      \<and> (\<forall>src tree perr. os_ReadFile w p = Inr src \<and> parser_ParseFile w p src = (Some tree, perr)
             \<and> (\<forall>m. perr \<noteq> OtherParseError m) \<and> (\<forall>t. os_Stat w p \<noteq> StatOk t)
           \<longrightarrow> (\<exists>m. GetOrParseFile w cache p = (Inl (CacheStatFailed p (OsError m)), cache)))"
  proof
    assume nv: "\<not> entry_valid w cache p"
    show "(\<forall>err. os_ReadFile w p = Inl err \<longrightarrow>
           GetOrParseFile w cache p = (Inl (CacheReadFailed p err), cache))
      \<and> (\<forall>src tree m. os_ReadFile w p = Inr src \<and> parser_ParseFile w p src = (tree, OtherParseError m)
           \<longrightarrow> GetOrParseFile w cache p = (Inl (CacheParseFailed p m), cache))
      \<and> (\<forall>src perr. os_ReadFile w p = Inr src \<and> parser_ParseFile w p src = (None, perr)
             \<and> (\<forall>m. perr \<noteq> OtherParseError m)
           \<longrightarrow> GetOrParseFile w cache p = (Inl (CacheNoAST p), cache))
      \<and> (\<forall>src tree perr. os_ReadFile w p = Inr src \<and> parser_ParseFile w p src = (Some tree, perr)
             \<and> (\<forall>m. perr \<noteq> OtherParseError m) \<and> (\<forall>t. os_Stat w p \<noteq> StatOk t)
           \<longrightarrow> (\<exists>m. GetOrParseFile w cache p = (Inl (CacheStatFailed p (OsError m)), cache)))"
      unfolding GetOrParseFile_def inv [OF nv]
      by (auto simp: Let_def split: parse_error.splits stat_result.splits option.splits)
  qed
  from 1 2 show ?thesis by blast
qed

text \<open>
  The theorem at a cache holding an entry of time 5 for a file that was modified at time 9
  and cannot be read any more.
\<close>

theorem failed_reparse_witness:
  "(let w = (disk_world 9 ''package b'')\<lparr>os_ReadFile := (\<lambda>p. Inl (OsError ''permission denied''))\<rparr>;
        entry = \<lparr>cf_ref = 0, cf_ast = \<lparr>file_pkg = ''a'', file_pos = Some ''/w/a.go'',
                    file_doc = None, file_decls = []\<rparr>, cf_modTime = 5, cf_filePath = ''/w/a.go''\<rparr>;
        cache = \<lparr>files = [''/w/a.go'' \<mapsto> entry], allocated = 1\<rparr>
    in \<not> entry_valid w cache ''/w/a.go''
       \<and> GetOrParseFile w cache ''/w/a.go''
           = (Inl (CacheReadFailed ''/w/a.go'' (OsError ''permission denied'')), cache)
       \<and> files (snd (GetOrParseFile w cache ''/w/a.go'')) ''/w/a.go'' = Some entry)"
proof -
  define w where "w = (disk_world 9 ''package b'')\<lparr>os_ReadFile := (\<lambda>p. Inl (OsError ''permission denied''))\<rparr>"
  define entry where "entry = \<lparr>cf_ref = 0, cf_ast = \<lparr>file_pkg = ''a'', file_pos = Some ''/w/a.go'',
                    file_doc = None, file_decls = []\<rparr>, cf_modTime = 5, cf_filePath = ''/w/a.go''\<rparr>"
  define cache where "cache = \<lparr>files = [''/w/a.go'' \<mapsto> entry], allocated = 1\<rparr>"
  have nv: "\<not> entry_valid w cache ''/w/a.go''"
    by (simp add: entry_valid_def w_def cache_def entry_def disk_world_def toy_clean_def)
  have rd: "os_ReadFile w ''/w/a.go'' = Inl (OsError ''permission denied'')"
    by (simp add: w_def)
  have res: "GetOrParseFile w cache ''/w/a.go''
           = (Inl (CacheReadFailed ''/w/a.go'' (OsError ''permission denied'')), cache)"
    using failed_reparse_leaves_cache_unchanged [of w cache "''/w/a.go''"] nv rd by blast
  have "files (snd (GetOrParseFile w cache ''/w/a.go'')) ''/w/a.go'' = Some entry"
    unfolding res by (simp add: cache_def)
  with nv res show ?thesis
    unfolding Let_def w_def [symmetric] entry_def [symmetric] cache_def [symmetric] by simp
qed

text \<open>
  Claim C9, as the code has it. The cache is a map from the path string that
  \<open>GetOrParseFile\<close> was called with: a call changes no entry but the one of its own key,
  removes no key, adds at most its own key, and after a successful call the entry of the key
  is the entry returned. The key is not made absolute or cleaned.
\<close>

theorem GetOrParseFile_touches_only_its_key:
  "(\<forall>q. q \<noteq> p \<longrightarrow> files (snd (GetOrParseFile w cache p)) q = files cache q)
   \<and> dom (files (snd (GetOrParseFile w cache p))) \<subseteq> insert p (dom (files cache))
   \<and> dom (files cache) \<subseteq> dom (files (snd (GetOrParseFile w cache p)))
   \<and> (\<forall>x. fst (GetOrParseFile w cache p) = Inr x
         \<longrightarrow> files (snd (GetOrParseFile w cache p)) p = Some x)"
proof -
  obtain r c' where rc: "GetOrParseFile w cache p = (r, c')" by (cases "GetOrParseFile w cache p")
  from GetOrParseFile_cases [OF rc] show ?thesis
    unfolding rc by (elim disjE exE conjE) (auto simp: dom_def)
qed

text \<open>
  The theorem on the disk of the example: the call for \<open>/w/./a.go\<close> keeps the entry that
  the call for \<open>/w/a.go\<close> made and stores its own.
\<close>

theorem GetOrParseFile_touches_only_its_key_witness:
  "(let w = disk_world 5 ''package a'';
        c1 = snd (GetOrParseFile w emptyCache ''/w/a.go'')
    in files (snd (GetOrParseFile w c1 ''/w/./a.go'')) ''/w/a.go'' = files c1 ''/w/a.go''
       \<and> files c1 ''/w/a.go'' \<noteq> None
       \<and> fst (GetOrParseFile w c1 ''/w/./a.go'')
            = Inr \<lparr>cf_ref = 1, cf_ast = \<lparr>file_pkg = ''a'', file_pos = Some ''/w/./a.go'',
                      file_doc = None, file_decls = []\<rparr>, cf_modTime = 5,
                    cf_filePath = ''/w/./a.go''\<rparr>
       \<and> files (snd (GetOrParseFile w c1 ''/w/./a.go'')) ''/w/./a.go''
            = Some \<lparr>cf_ref = 1, cf_ast = \<lparr>file_pkg = ''a'', file_pos = Some ''/w/./a.go'',
                      file_doc = None, file_decls = []\<rparr>, cf_modTime = 5,
                    cf_filePath = ''/w/./a.go''\<rparr>)"
proof -
  define w where "w = disk_world 5 ''package a''"
  define c1 where "c1 = snd (GetOrParseFile w emptyCache ''/w/a.go'')"
  define second where "second = GetOrParseFile w c1 ''/w/./a.go''"
  define fresh where "fresh = \<lparr>cf_ref = 1, cf_ast = \<lparr>file_pkg = ''a'', file_pos = Some ''/w/./a.go'',
                      file_doc = None, file_decls = []\<rparr>, cf_modTime = 5,
                    cf_filePath = ''/w/./a.go''\<rparr>"
  have c1_eq: "c1 = \<lparr>files = [''/w/a.go'' \<mapsto>
          \<lparr>cf_ref = 0, cf_ast = \<lparr>file_pkg = ''a'', file_pos = Some ''/w/a.go'', file_doc = None,
                                   file_decls = []\<rparr>,
            cf_modTime = 5, cf_filePath = ''/w/a.go''\<rparr>], allocated = 1\<rparr>"
    unfolding c1_def w_def first_parse_example by simp
  have neq: "''/w/a.go'' \<noteq> ''/w/./a.go''" by simp
  have ret: "fst second = Inr fresh"
    unfolding second_def c1_eq w_def fresh_def
    by (simp add: GetOrParseFile_def disk_world_def toy_clean_def toy_parse_def Let_def)
  have c1: "files c1 ''/w/a.go'' \<noteq> None"
    unfolding c1_eq by simp
  note only = GetOrParseFile_touches_only_its_key [of "''/w/./a.go''" w c1, folded second_def]
  from only have "\<forall>q. q \<noteq> ''/w/./a.go'' \<longrightarrow> files (snd second) q = files c1 q"
    by (rule conjunct1)
  with neq have keep: "files (snd second) ''/w/a.go'' = files c1 ''/w/a.go''"
    by simp
  from only have "\<forall>x. fst second = Inr x \<longrightarrow> files (snd second) ''/w/./a.go'' = Some x"
    by simp
  with ret have own: "files (snd second) ''/w/./a.go'' = Some fresh"
    by simp
  from keep c1 ret own show ?thesis
    unfolding Let_def w_def [symmetric] c1_def [symmetric] second_def [symmetric]
      fresh_def [symmetric]
    by simp
qed

text \<open>
  Claim C9 as stated fails: two keys whose absolute path is the same, so that they name
  one file on disk, get an entry each.
\<close>

theorem cache_two_keys_one_file:
  "(let w = disk_world 5 ''package a'';
        c1 = snd (GetOrParseFile w emptyCache ''/w/a.go'');
        c2 = snd (GetOrParseFile w c1 ''/w/./a.go'')
    in files c2 ''/w/a.go'' \<noteq> None \<and> files c2 ''/w/./a.go'' \<noteq> None
       \<and> files c2 ''/w/a.go'' \<noteq> files c2 ''/w/./a.go''
       \<and> filepath_Abs w ''/w/a.go'' = Inr ''/w/a.go''
       \<and> filepath_Abs w ''/w/./a.go'' = Inr ''/w/a.go'')"
  by (simp add: GetOrParseFile_def disk_world_def toy_clean_def toy_parse_def emptyCache_def Let_def)

section \<open>Properties of the scope hierarchy\<close>

lemma has_as_body_child:
  "has_as_body block n \<Longrightarrow> \<exists>c \<in> set (children n). ptr c = ptr block"
  by (cases n) (auto split: option.splits)

lemma ptr_in_ptrs: "ptr n \<in> set (ptrs n)"
  by (subst ptrs.simps) simp

lemma inspect_for_body_below:
  "inspect_for_body block n \<Longrightarrow> ptr block \<in> set (concat (map ptrs (children n)))"
proof (induction block n rule: inspect_for_body.induct)
  case (1 block n)
  show ?case
  proof (cases "has_as_body block n")
    case True
    then obtain c where "c \<in> set (children n)" "ptr c = ptr block"
      using has_as_body_child by blast
    then show ?thesis using ptr_in_ptrs [of c] by auto
  next
    case False
    with "1.prems" obtain c where c: "c \<in> set (children n)" "inspect_for_body block c"
      by (subst (asm) inspect_for_body.simps) auto
    from "1.IH" [OF False c] have "ptr block \<in> set (concat (map ptrs (children c)))" .
    then have "ptr block \<in> set (ptrs c)" by (subst ptrs.simps) simp
    with c(1) show ?thesis by auto
  qed
qed

lemma isPartOfConstruct_itself:
  "distinct (ptrs block) \<Longrightarrow> \<not> isPartOfConstruct block block"
proof
  assume d: "distinct (ptrs block)" and "isPartOfConstruct block block"
  then have "ptr block \<in> set (concat (map ptrs (children block)))"
    unfolding isPartOfConstruct_def by (rule_tac inspect_for_body_below)
  moreover from d have "ptr block \<notin> set (concat (map ptrs (children block)))"
    by (subst (asm) ptrs.simps) simp
  ultimately show False by simp
qed

lemma example_body_distinct: "distinct (ptrs example_body)"
  by code_simp

text \<open>
  Claim C3 at the body of the example, target line 3. \<open>findBlockScopesAtLine\<close> calls
  \<open>isPartOfConstruct(node, n)\<close> with the block itself as the tree to search, where no node
  can have the block as its body (\<open>isPartOfConstruct_itself\<close>): the block of the function
  and the block of the \<open>if\<close> each get a frame of their own, next to the frame of the
  \<open>if\<close>. Searched from the enclosing tree, the block of the \<open>if\<close> is found to be a body.
\<close>

theorem block_frames_of_bodies_example:
  "findBlockScopesAtLine example_body 3
     = [''block (lines 1-5)'', ''if (lines 2-4)'', ''block (lines 2-4)'']
   \<and> isPartOfConstruct (BlockStmt 4 2 4 [OtherNode 5 3 3 []]) example_body
   \<and> \<not> isPartOfConstruct (BlockStmt 4 2 4 [OtherNode 5 3 3 []])
         (BlockStmt 4 2 4 [OtherNode 5 3 3 []])"
  by code_simp

section \<open>Properties of the formatter\<close>

lemma formatFunction_plain:
  "formatFunction w iter cache fn False False workspaceDir = (formatFunction_code w fn, cache)"
  by (simp add: formatFunction_def)


lemma isFileInWorkspace_empty: "\<not> isFileInWorkspace w p []"
  by (simp add: isFileInWorkspace_def)

lemma formatType_plain:
  "formatType w iter cache t False False False parent workspaceDir
     = (formatType_code w t parent, cache)"
  by (simp add: formatType_def)

lemma formatVariable_plain:
  "formatVariable w iter cache v False False parent workspaceDir
     = (Some (formatVariable_code w v parent), cache)"
  by (simp add: formatVariable_def)

lemma methods_fold:
  "foldl (\<lambda>(out, c) method.
            case formatFunction w iter c method False False workspaceDir of
              (text, c') \<Rightarrow> (out @ NL @ NL @ text, c')) (acc, cache) ms
   = (acc @ concat (map (\<lambda>m. NL @ NL @ formatFunction_code w m) ms), cache)"
  by (induction ms arbitrary: acc) (simp_all add: formatFunction_plain)


lemma formatVariable_outside:
  "\<not> isFileInWorkspace w (vs_filename v) workspaceDir \<Longrightarrow>
   formatVariable w iter cache v r s parent workspaceDir
     = formatVariable w iter cache v False s parent workspaceDir"
  by (simp add: formatVariable_def Let_def split: prod.splits option.splits)









lemmas branch_congs =
  option.case_cong sum.case_cong stat_result.case_cong prod.case_cong parse_error.case_cong
  list.case_cong if_cong

lemma GetOrParseFile_tool [simp]:
  "GetOrParseFile (w\<lparr>run_gopls := tool\<rparr>) cache p = GetOrParseFile w cache p"
  by (simp add: GetOrParseFile_def cong: branch_congs)

lemma formatScope_tool [simp]:
  "formatScope (w\<lparr>run_gopls := tool\<rparr>) cache p l = formatScope w cache p l"
  by (simp add: formatScope_def cong: branch_congs)

lemma stat_ok_tool [simp]: "stat_ok (w\<lparr>run_gopls := tool\<rparr>) = stat_ok w"
  by (rule ext) (simp add: stat_ok_def)

lemma resolveFilePath_tool [simp]:
  "resolveFilePath (w\<lparr>run_gopls := tool\<rparr>) p ws = resolveFilePath w p ws"
  by (simp add: resolveFilePath_def Let_def cong: branch_congs)

lemma resolvePackagePath_tool [simp]:
  "resolvePackagePath (w\<lparr>run_gopls := tool\<rparr>) p ws = resolvePackagePath w p ws"
  by (simp add: resolvePackagePath_def cong: branch_congs)

lemma readSourceLines_tool [simp]:
  "readSourceLines (w\<lparr>run_gopls := tool\<rparr>) f s e = readSourceLines w f s e"
  by (simp add: readSourceLines_def cong: branch_congs)

lemma code_tool [simp]:
  "formatFunction_code (w\<lparr>run_gopls := tool\<rparr>) fn = formatFunction_code w fn"
  "formatType_code (w\<lparr>run_gopls := tool\<rparr>) t parent = formatType_code w t parent"
  "formatVariable_code (w\<lparr>run_gopls := tool\<rparr>) v parent = formatVariable_code w v parent"
  by (simp_all add: formatFunction_code_def formatType_code_def formatVariable_code_def
      cong: branch_congs)












section \<open>Visibility filtering of whole-file inspection\<close>

lemma write_separated_append:
  "write_separated b (xs @ ys) = write_separated (write_separated b xs) ys"
  by (simp add: write_separated_def)

lemma write_separated_Nil [simp]: "write_separated b [] = b"
  by (simp add: write_separated_def)

lemma write_separated_Cons [simp]:
  "write_separated b (x # xs) = write_separated (WriteString x (addSeparator b)) xs"
  by (simp add: write_separated_def)

lemma formatSpecs_shown:
  "formatSpecs w iter includePrivate ws g specs (b, cache)
     = Some (write_separated b (shown_specs w includePrivate g specs), cache)"
proof (induction specs arbitrary: b)
  case Nil
  show ?case by (simp add: shown_specs_def)
next
  case (Cons s specs)
  note IH = Cons.IH
  show ?case
  proof (cases s)
    case (ImportSpec i)
    have "shown_specs w includePrivate g (s # specs) = shown_specs w includePrivate g specs"
      using ImportSpec by (simp add: shown_specs_def)
    then show ?thesis
      using ImportSpec IH [of b] by simp
  next
    case (TypeSpec t)
    show ?thesis
    proof (cases "includePrivate \<or> IsExported w (ts_name t)")
      case True
      then have "shown_specs w includePrivate g (s # specs)
          = [formatType_code w t (Some g)] @ shown_specs w includePrivate g specs"
        using TypeSpec by (simp add: shown_specs_def)
      then show ?thesis
        using True TypeSpec IH [of "WriteString (formatType_code w t (Some g)) (addSeparator b)"]
        by (simp add: write_separated_append formatType_plain)
    next
      case False
      then have "shown_specs w includePrivate g (s # specs)
          = shown_specs w includePrivate g specs"
        using TypeSpec by (simp add: shown_specs_def)
      then show ?thesis
        using False TypeSpec IH [of b] by simp
    qed
  next
    case (ValueSpec v)
    show ?thesis
    proof (cases "includePrivate \<or> list_ex (IsExported w) (vs_names v)")
      case True
      then have "shown_specs w includePrivate g (s # specs)
          = [formatVariable_code w v (Some g)] @ shown_specs w includePrivate g specs"
        using ValueSpec by (auto simp: shown_specs_def list_ex_iff)
      then show ?thesis
        using True ValueSpec
          IH [of "WriteString (formatVariable_code w v (Some g)) (addSeparator b)"]
        by (simp add: write_separated_append formatVariable_plain)
    next
      case False
      then have "shown_specs w includePrivate g (s # specs)
          = shown_specs w includePrivate g specs"
        using ValueSpec by (auto simp: shown_specs_def list_ex_iff)
      then show ?thesis
        using False ValueSpec IH [of b] by simp
    qed
  qed
qed

lemma formatDecls_shown:
  "formatDecls w iter includePrivate workspaceDir decls (b, cache)
     = Some (write_separated b (shown_decls w includePrivate decls), cache)"
proof (induction decls arbitrary: b)
  case Nil
  show ?case by (simp add: shown_decls_def)
next
  case (Cons d decls)
  note IH = Cons.IH
  show ?case
  proof (cases d)
    case (FuncDecl f)
    show ?thesis
    proof (cases "includePrivate \<or> IsExported w (fn_name f)")
      case True
      then have "shown_decls w includePrivate (d # decls)
          = [formatFunction_code w f] @ shown_decls w includePrivate decls"
        using FuncDecl by (simp add: shown_decls_def)
      then show ?thesis
        using True FuncDecl IH [of "WriteString (formatFunction_code w f) (addSeparator b)"]
        by (simp add: write_separated_append formatFunction_plain)
    next
      case False
      then have "shown_decls w includePrivate (d # decls) = shown_decls w includePrivate decls"
        using FuncDecl by (simp add: shown_decls_def)
      then show ?thesis
        using False FuncDecl IH [of b] by simp
    qed
  next
    case (GenDecl g)
    have "shown_decls w includePrivate (d # decls)
        = shown_specs w includePrivate g (gd_specs g) @ shown_decls w includePrivate decls"
      using GenDecl by (simp add: shown_decls_def)
    then show ?thesis
      using GenDecl IH [of "write_separated b (shown_specs w includePrivate g (gd_specs g))"]
      by (simp add: write_separated_append formatSpecs_shown)
  next
    case BadDecl
    have "shown_decls w includePrivate (d # decls) = shown_decls w includePrivate decls"
      using BadDecl by (simp add: shown_decls_def)
    then show ?thesis
      using BadDecl IH [of b] by simp
  qed
qed

text \<open>
  Claim C8, as the code has it. The second pass of \<open>formatFile\<close> writes, in source order
  and each after a separator, exactly the declarations of \<open>shown_decls\<close>: with
  \<open>includePrivate\<close> all of them, without it the functions and types whose name is
  exported and the variable or constant specifications with at least one exported name.
  The text that \<open>formatFile\<close> writes before them does not depend on \<open>includePrivate\<close>.
\<close>

theorem whole_file_shows_exported_declarations:
  "formatDecls w iter includePrivate workspaceDir decls (b, cache)
     = Some (write_separated b (shown_decls w includePrivate decls), cache)
   \<and> (\<exists>header. \<forall>includePrivate.
         formatFile w iter cache file includePrivate includeImports workspaceDir
           = (Some (fst (write_separated header
                           (shown_decls w includePrivate (file_decls file)))), cache))"
proof -
  have "\<exists>header. \<forall>includePrivate.
      formatFile w iter cache file includePrivate includeImports workspaceDir
        = (case formatDecls w iter includePrivate workspaceDir (file_decls file)
                  (header, cache) of
             None \<Rightarrow> (None, cache)
           | Some (b, cache') \<Rightarrow> (Some (fst b), cache'))"
    unfolding formatFile_def Let_def by (rule exI, rule allI, rule refl)
  then obtain header where "\<forall>includePrivate.
      formatFile w iter cache file includePrivate includeImports workspaceDir
        = (case formatDecls w iter includePrivate workspaceDir (file_decls file)
                  (header, cache) of
             None \<Rightarrow> (None, cache)
           | Some (b, cache') \<Rightarrow> (Some (fst b), cache'))" ..
  then have "\<forall>includePrivate.
         formatFile w iter cache file includePrivate includeImports workspaceDir
           = (Some (fst (write_separated header
                           (shown_decls w includePrivate (file_decls file)))), cache)"
    by (simp add: formatDecls_shown)
  then show ?thesis using formatDecls_shown by blast
qed

text \<open>
  The theorem at the file of the example: the public-only inspection shows \<open>Exported\<close>
  and not \<open>unexported\<close>, the inspection with private declarations shows both.
\<close>

theorem whole_file_example:
  "shown_decls world_gopls_down False (file_decls a_go_tree)
     = [''Lines: 3-4\<newline>Code:\<newline>func Exported()'',
        ''Lines: 9\<newline>Code:\<newline>var hidden, Shown = 1, 2'']
   \<and> shown_decls world_gopls_down True (file_decls a_go_tree)
     = [''Lines: 3-4\<newline>Code:\<newline>func Exported()'',
        ''Lines: 6-7\<newline>Code:\<newline>func unexported()'',
        ''Lines: 9\<newline>Code:\<newline>var hidden, Shown = 1, 2'']
   \<and> formatDecls world_gopls_down id False ''/w'' (file_decls a_go_tree)
         (([], False), emptyCache)
     = Some ((''Lines: 3-4\<newline>Code:\<newline>func Exported()\<newline>\<newline>Lines: 9\<newline>Code:\<newline>var hidden, Shown = 1, 2'', True), emptyCache)
   \<and> formatDecls world_gopls_down id True ''/w'' (file_decls a_go_tree)
         (([], False), emptyCache)
     = Some ((''Lines: 3-4\<newline>Code:\<newline>func Exported()\<newline>\<newline>Lines: 6-7\<newline>Code:\<newline>func unexported()\<newline>\<newline>Lines: 9\<newline>Code:\<newline>var hidden, Shown = 1, 2'', True), emptyCache)"
proof -
  have pub: "shown_decls world_gopls_down False (file_decls a_go_tree)
     = [''Lines: 3-4\<newline>Code:\<newline>func Exported()'',
        ''Lines: 9\<newline>Code:\<newline>var hidden, Shown = 1, 2'']"
    by code_simp
  have all: "shown_decls world_gopls_down True (file_decls a_go_tree)
     = [''Lines: 3-4\<newline>Code:\<newline>func Exported()'',
        ''Lines: 6-7\<newline>Code:\<newline>func unexported()'',
        ''Lines: 9\<newline>Code:\<newline>var hidden, Shown = 1, 2'']"
    by code_simp
  note shown = whole_file_shows_exported_declarations
    [of world_gopls_down id _ "''/w''" "file_decls a_go_tree" "([], False)" emptyCache,
      THEN conjunct1]
  have a: "formatDecls world_gopls_down id False ''/w'' (file_decls a_go_tree)
         (([], False), emptyCache)
     = Some ((''Lines: 3-4\<newline>Code:\<newline>func Exported()\<newline>\<newline>Lines: 9\<newline>Code:\<newline>var hidden, Shown = 1, 2'', True), emptyCache)"
    unfolding shown pub by (simp add: addSeparator_def WriteString_def)
  have b: "formatDecls world_gopls_down id True ''/w'' (file_decls a_go_tree)
         (([], False), emptyCache)
     = Some ((''Lines: 3-4\<newline>Code:\<newline>func Exported()\<newline>\<newline>Lines: 6-7\<newline>Code:\<newline>func unexported()\<newline>\<newline>Lines: 9\<newline>Code:\<newline>var hidden, Shown = 1, 2'', True), emptyCache)"
    unfolding shown all by (simp add: addSeparator_def WriteString_def)
  from pub all a b show ?thesis by blast
qed

text \<open>
  Claim C8 as stated fails for a specification of several names: the public-only inspection
  of the example shows the declaration of \<open>hidden\<close>, which is not exported, because the
  same specification declares \<open>Shown\<close>.
\<close>

theorem private_name_in_public_only_output:
  "fst (Inspect world_gopls_down id emptyCache ''/w/a.go'' 0 [] False ''/w'')
     = Inr ''File: /w/a.go\<newline>\<newline>Lines: 3-4\<newline>Code:\<newline>func Exported()\<newline>\<newline>Lines: 9\<newline>Code:\<newline>var hidden, Shown = 1, 2''
   \<and> \<not> IsExported world_gopls_down ''hidden''"
  by code_simp

section \<open>Output and the iteration order of maps\<close>












end
